theory Spec2Isabelle
  imports Main "HOL-Library.Word" "HOL-Library.Signed_Division"
begin

unbundle bit_operations_syntax

section \<open>Data model\<close>

text \<open>
  A \<open>Uint8Array\<close> is a list of 8-bit words; \<open>bigint\<close> is \<open>int\<close>.
  \<open>Address\<close>, \<open>Hash\<close> and \<open>Bytes\<close> are all \<open>Uint8Array\<close> in \<open>evm/types.ts\<close>.
\<close>

type_synonym byte = "8 word"

type_synonym bytes = "byte list"

text \<open>\<open>Transaction\<close> of \<open>evm/types.ts\<close>; \<open>to\<close> is \<open>null\<close> for a contract creation.\<close>

record Transaction =
  tx_from :: bytes
  tx_to :: "bytes option"
  tx_value :: int
  tx_gasLimit :: int
  tx_gasPrice :: int
  tx_nonce :: int
  tx_data :: bytes

text \<open>\<open>BlockHeader\<close> and \<open>Block\<close> of \<open>blockchain/types.ts\<close>.\<close>

record BlockHeader =
  parentHash :: bytes
  number :: int
  timestamp :: int
  stateRoot :: bytes
  transactionsRoot :: bytes
  receiptsRoot :: bytes
  validator :: bytes
  signature :: bytes
  gasLimit :: int
  gasUsed :: int
  extraData :: bytes

record Block =
  header :: BlockHeader
  transactions :: "Transaction list"

section \<open>Fork choice (\<open>consensus/poa.ts\<close>)\<close>

datatype ForkAction = Extend | Reorg | Ignore

text \<open>\<open>ForkChoiceResult\<close>: \<open>newChain\<close> and \<open>commonAncestor\<close> are optional fields.\<close>

record ForkChoiceResult =
  action :: ForkAction
  newChain :: "Block list option"
  commonAncestor :: "Block option"

text \<open>
  \<open>PoAConsensus.shouldReorg\<close>: compares the two block numbers only. Every result is an
  object literal with the single field \<open>action\<close>.
\<close>

definition shouldReorg :: "Block \<Rightarrow> Block \<Rightarrow> ForkChoiceResult" where
  "shouldReorg newBlock currentTip =
     (let newBlockNumber = number (header newBlock);
          currentTipNumber = number (header currentTip)
      in if newBlockNumber \<le> currentTipNumber
         then \<lparr>action = Ignore, newChain = None, commonAncestor = None\<rparr>
         else if newBlockNumber > currentTipNumber + 1
         then \<lparr>action = Reorg, newChain = None, commonAncestor = None\<rparr>
         else \<lparr>action = Extend, newChain = None, commonAncestor = None\<rparr>)"



section \<open>Errors and JavaScript helpers\<close>

text \<open>
  Every \<open>throw\<close> of the source is a value of this type (\<open>Inl\<close> of a sum). The
  constructors are named after the thrown messages; \<open>SyntaxError\<close>, \<open>RangeError\<close> and
  \<open>TypeError\<close> are thrown by the JavaScript runtime itself.
\<close>

datatype error =
    InsufficientBalance
  | SnapshotNotFound nat
  | StackOverflow
  | InvalidStackValue
  | StackUnderflow
  | NegativeGasConsumption
  | OutOfGas
  | InvalidJumpDestination
  | CodeOutOfBounds
  | NotAPushInstruction
  | SenderDoesNotExist
  | InvalidNonce
  | GasLimitMustBePositive
  | ContractAddressExists
  | ExpectedRLPList
  | InvalidHexString
  | InvalidForkChoice
  | SyntaxError
  | RangeError
  | TypeError
  | ExecutionFailed
  | FailedToStoreBlock

definition bind_err :: "error + 'a \<Rightarrow> ('a \<Rightarrow> error + 'b) \<Rightarrow> error + 'b" where
  "bind_err m f = (case m of Inl e \<Rightarrow> Inl e | Inr x \<Rightarrow> f x)"

text \<open>A JavaScript \<open>Map\<close> with insertion order: an association list with distinct keys.\<close>

type_synonym ('k, 'v) jsmap = "('k \<times> 'v) list"

definition map_get :: "('k, 'v) jsmap \<Rightarrow> 'k \<Rightarrow> 'v option" where
  "map_get m k = map_of m k"

definition map_has :: "('k, 'v) jsmap \<Rightarrow> 'k \<Rightarrow> bool" where
  "map_has m k = (map_of m k \<noteq> None)"

fun map_set :: "'k \<Rightarrow> 'v \<Rightarrow> ('k, 'v) jsmap \<Rightarrow> ('k, 'v) jsmap" where
  "map_set k v [] = [(k, v)]"
| "map_set k v (p # ps) = (if fst p = k then (k, v) # ps else p # map_set k v ps)"

definition map_delete :: "'k \<Rightarrow> ('k, 'v) jsmap \<Rightarrow> ('k, 'v) jsmap" where
  "map_delete k m = filter (\<lambda>p. fst p \<noteq> k) m"

text \<open>\<open>Number.prototype.toString(16)\<close> and \<open>BigInt.prototype.toString(16)\<close>.\<close>

definition hexChar :: "int \<Rightarrow> char" where
  "hexChar d = ''0123456789abcdef'' ! nat (d mod 16)"

function natToHex :: "int \<Rightarrow> string" where
  "natToHex n = (if n < 16 then [hexChar n] else natToHex (n div 16) @ [hexChar (n mod 16)])"
  by pat_completeness auto
termination
  by (relation "measure nat") auto

definition bigintToHex :: "int \<Rightarrow> string" where
  "bigintToHex v = (if v < 0 then CHR ''-'' # natToHex (- v) else natToHex v)"

definition padStart :: "nat \<Rightarrow> char \<Rightarrow> string \<Rightarrow> string" where
  "padStart n c s = replicate (n - length s) c @ s"

text \<open>\<open>Uint8Array.prototype.slice(start, end)\<close> for non-negative bounds.\<close>

definition slice :: "'a list \<Rightarrow> nat \<Rightarrow> nat \<Rightarrow> 'a list" where
  "slice xs start end = take (min end (length xs) - start) (drop start xs)"

section \<open>Values at run time\<close>

text \<open>
  The stack and the storage slots are declared to hold \<open>Word = bigint\<close>, but the types are
  not checked at run time: \<open>ExecutionContext.swap\<close> can read \<open>stack[-1]\<close>, which is
  \<open>undefined\<close>, and the handlers then compute with it. JavaScript's operators turn
  \<open>undefined\<close> into the numbers \<open>NaN\<close> and \<open>0\<close> and nothing else that reaches the stack, so
  a value at run time is a \<open>bigint\<close>, the number 0, \<open>NaN\<close> or \<open>undefined\<close>.
\<close>

datatype jsval = Big int | NumZero | NumNaN | Undef

text \<open>\<open>toString(16)\<close>: a \<open>TypeError\<close> on \<open>undefined\<close>.\<close>

definition jsToString16 :: "jsval \<Rightarrow> error + string" where
  "jsToString16 v =
     (case v of Big n \<Rightarrow> Inr (bigintToHex n) | NumZero \<Rightarrow> Inr ''0''
      | NumNaN \<Rightarrow> Inr ''NaN'' | Undef \<Rightarrow> Inl TypeError)"

text \<open>\<open>v || 0n\<close>: every falsy value (\<open>0n\<close>, \<open>0\<close>, \<open>NaN\<close>, \<open>undefined\<close>) gives \<open>0n\<close>.\<close>

definition orZero :: "jsval \<Rightarrow> jsval" where
  "orZero v = (case v of Big n \<Rightarrow> Big n | _ \<Rightarrow> Big 0)"

section \<open>World state (\<open>evm/worldState.ts\<close>, \<open>InMemoryWorldState\<close>)\<close>

text \<open>
  \<open>Account\<close> of \<open>evm/types.ts\<close>. The \<open>storage\<close> field is a \<open>Map\<close> that is copied
  whenever an account is copied and never written, so it is held by value.
\<close>

record Account =
  address :: bytes
  nonce :: int
  balance :: int
  code :: bytes
  storage :: "(string, int) jsmap"

text \<open>
  Account objects and the per-address storage \<open>Map\<close>s are mutated in place and can be
  shared between the live maps and a snapshot, so they live in two stores indexed by
  reference; allocating appends to the store. The outer maps (\<open>accounts\<close>, \<open>storages\<close>,
  \<open>snapshots\<close>) are copied by \<open>new Map(...)\<close> wherever they are handed over, so they are
  held by value, with references as their values.
\<close>

type_synonym ref = nat

record Snapshot =
  snap_accounts :: "(string, ref) jsmap"
  snap_storages :: "(string, ref) jsmap"
  snap_nextSnapshotId :: nat

record World =
  accounts :: "(string, ref) jsmap"
  storages :: "(string, ref) jsmap"
  snapshots :: "(nat, Snapshot) jsmap"
  nextSnapshotId :: nat
  currentSnapshotId :: "nat option"
  acc_heap :: "Account list"
  stor_heap :: "(string, jsval) jsmap list"

definition emptyWorld :: World where
  "emptyWorld = \<lparr>accounts = [], storages = [], snapshots = [], nextSnapshotId = 1,
     currentSnapshotId = None, acc_heap = [], stor_heap = []\<rparr>"

definition addressToKey :: "bytes \<Rightarrow> string" where
  "addressToKey addr = concat (map (\<lambda>b. padStart 2 (CHR ''0'') (natToHex (uint b))) addr)"

definition storageKeyToString :: "jsval \<Rightarrow> error + string" where
  "storageKeyToString key = bind_err (jsToString16 key) (\<lambda>s. Inr (padStart 64 (CHR ''0'') s))"

text \<open>\<open>getAccount\<close> returns the stored object itself, that is, its reference.\<close>

definition getAccount :: "World \<Rightarrow> bytes \<Rightarrow> ref option" where
  "getAccount w addr = map_get (accounts w) (addressToKey addr)"

text \<open>\<open>putAccount\<close> stores a fresh copy of the account it is given.\<close>

definition putAccount :: "Account \<Rightarrow> World \<Rightarrow> World" where
  "putAccount account w =
     w\<lparr>acc_heap := acc_heap w @ [account],
       accounts := map_set (addressToKey (address account)) (length (acc_heap w)) (accounts w)\<rparr>"

definition accountExists :: "World \<Rightarrow> bytes \<Rightarrow> bool" where
  "accountExists w addr = map_has (accounts w) (addressToKey addr)"

definition getStorage :: "World \<Rightarrow> bytes \<Rightarrow> jsval \<Rightarrow> error + jsval" where
  "getStorage w addr key =
     bind_err (storageKeyToString key) (\<lambda>storageKey.
       (case map_get (storages w) (addressToKey addr) of
          None \<Rightarrow> Inr (Big 0)
        | Some r \<Rightarrow> (case map_get (stor_heap w ! r) storageKey of
                      None \<Rightarrow> Inr (Big 0) | Some v \<Rightarrow> Inr (orZero v))))"

text \<open>
  \<open>setStorage\<close> creates the address's \<open>Map\<close> when it is missing and then writes into the
  \<open>Map\<close> object in place; only \<open>0n\<close> deletes the slot.
\<close>

definition setStorage :: "bytes \<Rightarrow> jsval \<Rightarrow> jsval \<Rightarrow> World \<Rightarrow> error + World" where
  "setStorage addr key v w =
     bind_err (storageKeyToString key) (\<lambda>storageKey.
       (let addressKey = addressToKey addr;
            w1 = (if \<not> map_has (storages w) addressKey
                  then w\<lparr>stor_heap := stor_heap w @ [[]],
                         storages := map_set addressKey (length (stor_heap w)) (storages w)\<rparr>
                  else w);
            r = the (map_get (storages w1) addressKey);
            st = stor_heap w1 ! r
        in Inr (w1\<lparr>stor_heap := (stor_heap w1)[r := (if v = Big 0 then map_delete storageKey st
                                                       else map_set storageKey v st)]\<rparr>)))"

definition newAccount :: "bytes \<Rightarrow> Account" where
  "newAccount addr = \<lparr>address = addr, nonce = 0, balance = 0, code = [], storage = []\<rparr>"

definition getBalance :: "World \<Rightarrow> bytes \<Rightarrow> int" where
  "getBalance w addr =
     (case getAccount w addr of None \<Rightarrow> 0 | Some r \<Rightarrow> balance (acc_heap w ! r))"

text \<open>
  The mutators fetch the stored object, assign to its field in place, and hand the
  object to \<open>putAccount\<close>, which stores a copy. When no object is stored they build a
  local one, which no map ever holds.
\<close>

definition modifyAccount :: "bytes \<Rightarrow> (Account \<Rightarrow> Account) \<Rightarrow> World \<Rightarrow> World" where
  "modifyAccount addr f w =
     (case getAccount w addr of
        None \<Rightarrow> putAccount (f (newAccount addr)) w
      | Some r \<Rightarrow>
          (let w1 = w\<lparr>acc_heap := (acc_heap w)[r := f (acc_heap w ! r)]\<rparr>
           in putAccount (acc_heap w1 ! r) w1))"

definition addBalance :: "bytes \<Rightarrow> int \<Rightarrow> World \<Rightarrow> World" where
  "addBalance addr amount w =
     (if amount = 0 then w
      else modifyAccount addr (\<lambda>a. a\<lparr>balance := balance a + amount\<rparr>) w)"

definition subBalance :: "bytes \<Rightarrow> int \<Rightarrow> World \<Rightarrow> error + World" where
  "subBalance addr amount w =
     (if amount = 0 then Inr w
      else (case getAccount w addr of
              None \<Rightarrow> Inl InsufficientBalance
            | Some r \<Rightarrow>
                if balance (acc_heap w ! r) < amount then Inl InsufficientBalance
                else Inr (modifyAccount addr (\<lambda>a. a\<lparr>balance := balance a - amount\<rparr>) w)))"

definition getNonce :: "World \<Rightarrow> bytes \<Rightarrow> int" where
  "getNonce w addr =
     (case getAccount w addr of None \<Rightarrow> 0 | Some r \<Rightarrow> nonce (acc_heap w ! r))"

definition incrementNonce :: "bytes \<Rightarrow> World \<Rightarrow> World" where
  "incrementNonce addr w = modifyAccount addr (\<lambda>a. a\<lparr>nonce := nonce a + 1\<rparr>) w"

definition setNonce :: "bytes \<Rightarrow> int \<Rightarrow> World \<Rightarrow> World" where
  "setNonce addr n w = modifyAccount addr (\<lambda>a. a\<lparr>nonce := n\<rparr>) w"

definition getCode :: "World \<Rightarrow> bytes \<Rightarrow> bytes" where
  "getCode w addr =
     (case getAccount w addr of None \<Rightarrow> [] | Some r \<Rightarrow> code (acc_heap w ! r))"

definition setCode :: "bytes \<Rightarrow> bytes \<Rightarrow> World \<Rightarrow> World" where
  "setCode addr c w = modifyAccount addr (\<lambda>a. a\<lparr>code := c\<rparr>) w"

text \<open>
  \<open>snapshot\<close> copies every account object and every storage \<open>Map\<close> into fresh objects,
  in map order, and records them under the new id together with the already
  incremented \<open>nextSnapshotId\<close>.
\<close>

definition copyRefs :: "'a list \<Rightarrow> (string, ref) jsmap \<Rightarrow> 'a list \<times> (string, ref) jsmap" where
  "copyRefs heap m =
     (heap @ map (\<lambda>p. heap ! snd p) m,
      zip (map fst m) [length heap ..< length heap + length m])"

definition snapshot :: "World \<Rightarrow> nat \<times> World" where
  "snapshot w =
     (let snapshotId = nextSnapshotId w;
          (ah, accountsCopy) = copyRefs (acc_heap w) (accounts w);
          (sh, storagesCopy) = copyRefs (stor_heap w) (storages w)
      in (snapshotId,
          w\<lparr>nextSnapshotId := snapshotId + 1,
            acc_heap := ah, stor_heap := sh,
            snapshots := map_set snapshotId
               \<lparr>snap_accounts = accountsCopy, snap_storages = storagesCopy,
                snap_nextSnapshotId = snapshotId + 1\<rparr> (snapshots w),
            currentSnapshotId := Some snapshotId\<rparr>))"

text \<open>
  \<open>revert\<close> takes over the snapshot's maps by \<open>new Map(snapshot.accounts)\<close>: the map is
  copied, the objects in it are shared with the snapshot, which stays registered.
\<close>

definition revert :: "nat \<Rightarrow> World \<Rightarrow> error + World" where
  "revert snapshotId w =
     (case map_get (snapshots w) snapshotId of
        None \<Rightarrow> Inl (SnapshotNotFound snapshotId)
      | Some snap \<Rightarrow>
          Inr (w\<lparr>accounts := snap_accounts snap,
                 storages := snap_storages snap,
                 nextSnapshotId := snap_nextSnapshotId snap,
                 snapshots := filter (\<lambda>p. \<not> fst p > snapshotId) (snapshots w),
                 currentSnapshotId := Some snapshotId\<rparr>))"

definition commit :: "nat option \<Rightarrow> World \<Rightarrow> World" where
  "commit snapshotId w =
     (case snapshotId of
        Some i \<Rightarrow> w\<lparr>snapshots := filter (\<lambda>p. \<not> fst p \<ge> i) (snapshots w)\<rparr>
      | None \<Rightarrow>
          (case currentSnapshotId w of
             Some c \<Rightarrow> w\<lparr>snapshots := map_delete c (snapshots w), currentSnapshotId := None\<rparr>
           | None \<Rightarrow> w))"

text \<open>
  What a caller can observe of the accounts and of the storage through the interface:
  every key with the contents of the object it maps to, in map order.
\<close>

definition accountsView :: "World \<Rightarrow> (string \<times> Account) list" where
  "accountsView w = map (\<lambda>p. (fst p, acc_heap w ! snd p)) (accounts w)"

definition storagesView :: "World \<Rightarrow> (string \<times> (string, jsval) jsmap) list" where
  "storagesView w = map (\<lambda>p. (fst p, stor_heap w ! snd p)) (storages w)"

subsection \<open>Sequences of mutations, well-formed worlds, intact snapshots\<close>

text \<open>The mutating operations of \<open>IWorldState\<close>, as data, to quantify over sequences of them.\<close>

datatype mutation =
    AddBalance bytes int
  | SubBalance bytes int
  | IncrementNonce bytes
  | SetNonce bytes int
  | SetCode bytes bytes
  | SetStorage bytes int int
  | PutAccount Account

fun applyMutation :: "mutation \<Rightarrow> World \<Rightarrow> error + World" where
  "applyMutation (AddBalance a v) w = Inr (addBalance a v w)"
| "applyMutation (SubBalance a v) w = subBalance a v w"
| "applyMutation (IncrementNonce a) w = Inr (incrementNonce a w)"
| "applyMutation (SetNonce a n) w = Inr (setNonce a n w)"
| "applyMutation (SetCode a c) w = Inr (setCode a c w)"
| "applyMutation (SetStorage a k v) w = setStorage a (Big k) (Big v) w"
| "applyMutation (PutAccount acc) w = Inr (putAccount acc w)"

text \<open>
  A sequence of mutations runs until one throws; the world is then the one the throwing
  call found (\<open>subBalance\<close> throws before it writes).
\<close>

fun applyMutations :: "mutation list \<Rightarrow> World \<Rightarrow> World" where
  "applyMutations [] w = w"
| "applyMutations (m # ms) w =
     (case applyMutation m w of Inl e \<Rightarrow> w | Inr w' \<Rightarrow> applyMutations ms w')"

text \<open>Every reference held by a map points to an allocated object.\<close>

definition refsBelow :: "nat \<Rightarrow> ('k, ref) jsmap \<Rightarrow> bool" where
  "refsBelow n m = list_all (\<lambda>p. snd p < n) m"

definition wellFormed :: "World \<Rightarrow> bool" where
  "wellFormed w =
     (refsBelow (length (acc_heap w)) (accounts w)
      \<and> refsBelow (length (stor_heap w)) (storages w)
      \<and> list_all (\<lambda>s. refsBelow (length (acc_heap w)) (snap_accounts (snd s))
                      \<and> refsBelow (length (stor_heap w)) (snap_storages (snd s))) (snapshots w))"

text \<open>
  The objects of a snapshot's map \<open>sm\<close> are allocated and none of them is held by the
  live map \<open>lm\<close>, so no mutator can write to them.
\<close>

definition isolated :: "('k, ref) jsmap \<Rightarrow> ('k, ref) jsmap \<Rightarrow> 'a list \<Rightarrow> bool" where
  "isolated sm lm heap =
     (refsBelow (length heap) sm \<and> list_all (\<lambda>p. snd p \<notin> snd ` set lm) sm)"

text \<open>
  Snapshot \<open>i\<close> is registered as \<open>snap\<close>, is isolated, and its objects hold the contents
  \<open>av\<close> (accounts) and \<open>sv\<close> (storage maps).
\<close>

definition frozen ::
  "nat \<Rightarrow> Snapshot \<Rightarrow> Account list \<Rightarrow> (string, jsval) jsmap list \<Rightarrow> World \<Rightarrow> bool" where
  "frozen i snap av sv w =
     (map_get (snapshots w) i = Some snap
      \<and> isolated (snap_accounts snap) (accounts w) (acc_heap w)
      \<and> isolated (snap_storages snap) (storages w) (stor_heap w)
      \<and> map (\<lambda>p. acc_heap w ! snd p) (snap_accounts snap) = av
      \<and> map (\<lambda>p. stor_heap w ! snd p) (snap_storages snap) = sv)"

text \<open>Concrete worlds and mutation sequences.\<close>

definition alice :: bytes where "alice = replicate 20 170"

definition bob :: bytes where "bob = replicate 20 187"

definition world0 :: World where
  "world0 = applyMutations
     [PutAccount ((newAccount alice)\<lparr>balance := 100\<rparr>), SetStorage alice 1 5] emptyWorld"

definition mutations0 :: "mutation list" where
  "mutations0 = [SubBalance alice 3, AddBalance bob 3, IncrementNonce alice,
                 SetCode bob [96, 0], SetStorage alice 1 0, SetStorage bob 2 9,
                 SubBalance bob 50]"

definition twoSnapshots :: World where
  "twoSnapshots = snd (snapshot (snd (snapshot emptyWorld)))"

section \<open>Byte helpers (\<open>evm/utils.ts\<close>)\<close>

text \<open>
  \<open>parseInt(pair, 16)\<close> on a two-character piece of the string (all white space has been
  removed before): an optional sign, then an optional \<open>0x\<close> or \<open>0X\<close>, then the longest run
  of hexadecimal digits of either case; \<open>NaN\<close> (\<open>None\<close>) when that run is empty. So a leading
  sign applies to the digit after it, a character that is no digit ends the number, and
  the pieces \<open>0x\<close> and \<open>0X\<close> are \<open>NaN\<close>. The result is stored into a \<open>Uint8Array\<close>, which
  keeps it modulo 256 (\<open>word_of_int\<close>).
\<close>

definition hexVal :: "char \<Rightarrow> nat option" where
  "hexVal c = (if c \<in> set ''0123456789'' then Some (of_char c - 48)
               else if c \<in> set ''abcdef'' then Some (of_char c - 87)
               else if c \<in> set ''ABCDEF'' then Some (of_char c - 55)
               else None)"

definition parseHexPair :: "char \<Rightarrow> char \<Rightarrow> int option" where
  "parseHexPair a b =
     (if a = CHR ''-'' then (case hexVal b of Some l \<Rightarrow> Some (- int l) | None \<Rightarrow> None)
      else if a = CHR ''+'' then (case hexVal b of Some l \<Rightarrow> Some (int l) | None \<Rightarrow> None)
      else if a = CHR ''0'' \<and> (b = CHR ''x'' \<or> b = CHR ''X'') then None
      else (case hexVal a of
              Some h \<Rightarrow> (case hexVal b of Some l \<Rightarrow> Some (int (16 * h + l))
                         | None \<Rightarrow> Some (int h))
            | None \<Rightarrow> None))"

fun hexPairs :: "string \<Rightarrow> error + bytes" where
  "hexPairs (a # b # rest) =
     (case parseHexPair a b of
        None \<Rightarrow> Inl (InvalidHexString)
      | Some v \<Rightarrow> (case hexPairs rest of Inl e \<Rightarrow> Inl e
                   | Inr bs \<Rightarrow> Inr (word_of_int v # bs)))"
| "hexPairs [a] = (case parseHexPair a (CHR '' '') of
                     None \<Rightarrow> Inl InvalidHexString | Some v \<Rightarrow> Inr [word_of_int v])"
| "hexPairs [] = Inr []"

text \<open>
  \<open>hexToBytes\<close>: strips a \<open>0x\<close> prefix, removes white space (the characters \<open>\s\<close> matches
  among the 8-bit characters of the model), left-pads to even length and parses the pairs.
\<close>

definition whiteSpace :: "char list" where
  "whiteSpace = [CHR '' '', CHR 0x09, CHR 0x0A, CHR 0x0B, CHR 0x0C, CHR 0x0D, CHR 0xA0]"

definition hexToBytes :: "string \<Rightarrow> error + bytes" where
  "hexToBytes hex0 =
     (let hex1 = (if take 2 hex0 = ''0x'' then drop 2 hex0 else hex0);
          hex2 = filter (\<lambda>c. c \<notin> set whiteSpace) hex1;
          hex3 = (if length hex2 mod 2 \<noteq> 0 then CHR ''0'' # hex2 else hex2)
      in hexPairs hex3)"

definition bigintToBytes :: "int \<Rightarrow> nat \<Rightarrow> error + bytes" where
  "bigintToBytes v len = hexToBytes (padStart (len * 2) (CHR ''0'') (bigintToHex v))"

text \<open>
  \<open>bytesToBigint\<close> is \<open>BigInt('0x' + hex)\<close>: big-endian, and a \<open>SyntaxError\<close> for the empty
  array, since \<open>BigInt('0x')\<close> throws.
\<close>

definition beValue :: "bytes \<Rightarrow> int" where
  "beValue bs = foldl (\<lambda>acc b. acc * 256 + uint b) 0 bs"

definition bytesToBigint :: "bytes \<Rightarrow> error + int" where
  "bytesToBigint bs = (if bs = [] then Inl SyntaxError else Inr (beValue bs))"

definition padBytes :: "bytes \<Rightarrow> nat \<Rightarrow> bytes" where
  "padBytes bs len = (if length bs \<ge> len then bs else replicate (len - length bs) 0 @ bs)"

section \<open>Block header serialization (\<open>blockchain/utils.ts\<close>)\<close>

text \<open>\<open>ToInt32\<close>, applied by the bit operators \<open>&\<close> and \<open>>>\<close> to a number.\<close>

definition toInt32 :: "int \<Rightarrow> int" where
  "toInt32 n = (n + 2 ^ 31) mod 2 ^ 32 - 2 ^ 31"

function lengthToBytes :: "int \<Rightarrow> bytes" where
  "lengthToBytes len =
     (if len > 0 then lengthToBytes (toInt32 len div 256) @ [word_of_int (toInt32 len)]
      else [])"
  by pat_completeness auto
termination
proof (relation "measure nat")
  show "wf (measure nat)" by simp
next
  fix len :: int
  assume pos: "0 < len"
  have "(len + 2 ^ 31) mod 2 ^ 32 \<le> len + 2 ^ 31"
    using pos by (intro zmod_le_nonneg_dividend) simp
  then have le: "toInt32 len \<le> len" by (simp add: toInt32_def)
  have "toInt32 len div 256 < len"
  proof (cases "toInt32 len \<le> 0")
    case True
    then have "toInt32 len div 256 \<le> 0" by simp
    then show ?thesis using pos by simp
  next
    case False
    then have "toInt32 len div 256 < toInt32 len" by simp
    then show ?thesis using le by simp
  qed
  then show "(toInt32 len div 256, len) \<in> measure nat"
    using pos by simp
qed

definition concatBytes :: "bytes list \<Rightarrow> bytes" where
  "concatBytes arrays = concat arrays"

text \<open>
  \<open>RLP.encode\<close> of an array of byte strings is \<open>RLP.encodeList\<close>: the items are
  concatenated as they are and a list prefix is put in front.
\<close>

definition encodeList :: "bytes list \<Rightarrow> bytes" where
  "encodeList items =
     (let concatenated = concatBytes items; len = length concatenated
      in if len < 56 then word_of_nat (0xc0 + len) # concatenated
         else (let lengthBytes = lengthToBytes (int len)
               in word_of_nat (0xf7 + length lengthBytes) # lengthBytes @ concatenated))"

definition serializeBlockHeader :: "BlockHeader \<Rightarrow> error + bytes" where
  "serializeBlockHeader h =
     bind_err (bigintToBytes (number h) 32) (\<lambda>numberB.
     bind_err (bigintToBytes (timestamp h) 32) (\<lambda>timestampB.
     bind_err (bigintToBytes (gasLimit h) 32) (\<lambda>gasLimitB.
     bind_err (bigintToBytes (gasUsed h) 32) (\<lambda>gasUsedB.
       Inr (encodeList [parentHash h, numberB, timestampB, stateRoot h, transactionsRoot h,
              receiptsRoot h, validator h, signature h, gasLimitB, gasUsedB, extraData h])))))"

text \<open>
  \<open>decodeRLPList\<close>: the list length is taken from the first byte alone, and the payload
  is cut at fixed sizes; the loop runs over all of \<open>fieldSizes\<close> but its last entry, and the
  field pushed after the loop takes the rest.
\<close>

definition fieldSizes :: "nat list" where
  "fieldSizes = [32, 32, 32, 32, 32, 32, 20, 65, 32, 32]"

fun cutFields :: "bytes \<Rightarrow> nat \<Rightarrow> nat list \<Rightarrow> bytes list \<times> nat" where
  "cutFields listData offset [] = ([], offset)"
| "cutFields listData offset (sz # szs) =
     (let (fs, off) = cutFields listData (offset + sz) szs
      in (slice listData offset (offset + sz) # fs, off))"

definition decodeRLPList :: "bytes \<Rightarrow> error + bytes list" where
  "decodeRLPList data =
     (case data of
        [] \<Rightarrow> Inl ExpectedRLPList
      | d0 # _ \<Rightarrow>
          if d0 \<ge> 0xc0 then
            (let len = unat d0 - 0xc0;
                 listData = slice data 1 (1 + len);
                 (fields, offset) = cutFields listData 0 (butlast fieldSizes)
             in Inr (fields @ [slice listData offset (length listData)]))
          else Inl ExpectedRLPList)"

text \<open>An array read \<open>fields[i]\<close>: \<open>undefined\<close> (here \<open>None\<close>) beyond the end.\<close>

definition js_nth :: "'a list \<Rightarrow> nat \<Rightarrow> 'a option" where
  "js_nth xs i = (if i < length xs then Some (xs ! i) else None)"

text \<open>\<open>bytesToBigint\<close> of a possibly undefined value: \<open>Array.from(undefined)\<close> throws.\<close>

definition bytesToBigintJs :: "bytes option \<Rightarrow> error + int" where
  "bytesToBigintJs v = (case v of None \<Rightarrow> Inl TypeError | Some bs \<Rightarrow> bytesToBigint bs)"

text \<open>
  The object \<open>deserializeBlockHeader\<close> builds: the byte fields are whatever \<open>fields[i]\<close>
  holds, possibly \<open>undefined\<close>. The fields are evaluated in the order of the literal.
\<close>

record DecodedHeader =
  d_parentHash :: "bytes option"
  d_number :: int
  d_timestamp :: int
  d_stateRoot :: "bytes option"
  d_transactionsRoot :: "bytes option"
  d_receiptsRoot :: "bytes option"
  d_validator :: "bytes option"
  d_signature :: "bytes option"
  d_gasLimit :: int
  d_gasUsed :: int
  d_extraData :: "bytes option"

definition deserializeBlockHeader :: "bytes \<Rightarrow> error + DecodedHeader" where
  "deserializeBlockHeader data =
     bind_err (decodeRLPList data) (\<lambda>fields.
     bind_err (bytesToBigintJs (js_nth fields 1)) (\<lambda>num.
     bind_err (bytesToBigintJs (js_nth fields 2)) (\<lambda>ts.
     bind_err (bytesToBigintJs (js_nth fields 8)) (\<lambda>gl.
     bind_err (bytesToBigintJs (js_nth fields 9)) (\<lambda>gu.
       Inr \<lparr>d_parentHash = js_nth fields 0, d_number = num, d_timestamp = ts,
            d_stateRoot = js_nth fields 3, d_transactionsRoot = js_nth fields 4,
            d_receiptsRoot = js_nth fields 5, d_validator = js_nth fields 6,
            d_signature = js_nth fields 7, d_gasLimit = gl, d_gasUsed = gu,
            d_extraData = js_nth fields 10\<rparr>)))))"

text \<open>A header as \<open>createBlock\<close> and \<open>signBlockHeader\<close> produce it (block 1, 65-byte signature).\<close>

definition header1 :: BlockHeader where
  "header1 = \<lparr>parentHash = replicate 32 17, number = 1, timestamp = 1700000000,
     stateRoot = replicate 32 1, transactionsRoot = replicate 32 0,
     receiptsRoot = replicate 32 0, validator = replicate 20 34,
     signature = replicate 32 51 @ replicate 33 0,
     gasLimit = 30000000, gasUsed = 0, extraData = []\<rparr>"

section \<open>Transaction pool (\<open>pool/txPool.ts\<close>)\<close>

definition bytesToHex :: "bytes \<Rightarrow> string" where
  "bytesToHex bs = ''0x'' @ concat (map (\<lambda>b. padStart 2 (CHR ''0'') (natToHex (uint b))) bs)"

record PoolTransaction =
  pt_transaction :: Transaction
  pt_hash :: string
  pt_addedTime :: int
  pt_gasPrice :: int
  pt_gasLimit :: int
  pt_sender :: bytes
  pt_nonce :: int
  pt_priority :: int

record TxPoolConfig =
  maxPoolSize :: int
  maxAccountTransactions :: int
  minGasPrice :: int
  blockGasLimit :: int
  transactionTimeout :: int

text \<open>
  The per-sender arrays of \<open>accountTransactions\<close> are reachable from that map only, and
  pool entries are never written after their creation, so the pool is held by value.
\<close>

record TransactionPool =
  config :: TxPoolConfig
  pending :: "(string, PoolTransaction) jsmap"
  queued :: "(string, PoolTransaction) jsmap"
  accountTransactions :: "(string, PoolTransaction list) jsmap"
  nextPriority :: int

datatype reason =
    GasPriceTooLow
  | GasLimitExceedsBlock
  | GasLimitNotPositive
  | InvalidNonceValue
  | InvalidValue
  | MissingSender
  | AlreadyInPool
  | TooManyForAccount
  | NonceTooOld

datatype addResult = Added | NotAdded reason

definition emptyPool :: "TxPoolConfig \<Rightarrow> TransactionPool" where
  "emptyPool cfg = \<lparr>config = cfg, pending = [], queued = [], accountTransactions = [],
     nextPriority = 0\<rparr>"

text \<open>
  \<open>TransactionPool.validateTransaction\<close>. The guards \<open>transaction.gasPrice && ...\<close> skip
  the check for \<open>0n\<close>, which is falsy. A typed \<open>Transaction\<close> always has a \<open>from\<close> array, so
  the "Missing sender address" branch cannot be taken.
\<close>

definition poolValidate :: "TxPoolConfig \<Rightarrow> Transaction \<Rightarrow> reason option" where
  "poolValidate cfg tx =
     (if tx_gasPrice tx \<noteq> 0 \<and> tx_gasPrice tx < minGasPrice cfg then Some GasPriceTooLow
      else if tx_gasLimit tx \<noteq> 0 \<and> tx_gasLimit tx > blockGasLimit cfg then Some GasLimitExceedsBlock
      else if tx_gasLimit tx \<noteq> 0 \<and> tx_gasLimit tx \<le> 0 then Some GasLimitNotPositive
      else if tx_nonce tx < 0 then Some InvalidNonceValue
      else if tx_value tx \<noteq> 0 \<and> tx_value tx < 0 then Some InvalidValue
      else None)"

definition accountTxsOf :: "TransactionPool \<Rightarrow> string \<Rightarrow> PoolTransaction list" where
  "accountTxsOf pool senderHex =
     (case map_get (accountTransactions pool) senderHex of None \<Rightarrow> [] | Some l \<Rightarrow> l)"

text \<open>\<open>getCurrentNonce\<close>: 0 for a sender without entries, else the highest held nonce plus one.\<close>

definition getCurrentNonce :: "TransactionPool \<Rightarrow> bytes \<Rightarrow> int" where
  "getCurrentNonce pool addr =
     (let accountTxs = accountTxsOf pool (bytesToHex addr)
      in if length accountTxs = 0 then 0
         else foldl (\<lambda>maxNonce tx. if pt_nonce tx > maxNonce then pt_nonce tx else maxNonce)
                0 accountTxs + 1)"

text \<open>
  \<open>enforcePoolSizeLimit\<close>. \<open>Array.prototype.sort\<close> belongs to the runtime and the
  comparator used here answers \<open>-1\<close> both ways for equal arrival times, so the sort is a
  parameter \<open>srt\<close>, applied to the comparator and the array.
\<close>

definition evictCompare :: "PoolTransaction \<Rightarrow> PoolTransaction \<Rightarrow> int" where
  "evictCompare a b =
     (if pt_gasPrice a \<noteq> pt_gasPrice b then (if pt_gasPrice a > pt_gasPrice b then 1 else -1)
      else (if pt_addedTime a > pt_addedTime b then 1 else -1))"

definition findIndex :: "('a \<Rightarrow> bool) \<Rightarrow> 'a list \<Rightarrow> nat option" where
  "findIndex P xs = (if list_ex P xs then Some (length (takeWhile (\<lambda>x. \<not> P x) xs)) else None)"

definition spliceOut :: "nat \<Rightarrow> 'a list \<Rightarrow> 'a list" where
  "spliceOut i xs = take i xs @ drop (Suc i) xs"

definition removeFromAccount :: "string \<Rightarrow> PoolTransaction list \<Rightarrow> PoolTransaction list" where
  "removeFromAccount h accountTxs =
     (case findIndex (\<lambda>t. pt_hash t = h) accountTxs of
        None \<Rightarrow> accountTxs | Some i \<Rightarrow> spliceOut i accountTxs)"

definition evictOne :: "PoolTransaction \<Rightarrow> TransactionPool \<Rightarrow> TransactionPool" where
  "evictOne tx pool =
     (let senderHex = bytesToHex (pt_sender tx);
          accountTxs = removeFromAccount (pt_hash tx) (accountTxsOf pool senderHex)
      in pool\<lparr>pending := map_delete (pt_hash tx) (pending pool),
              queued := map_delete (pt_hash tx) (queued pool),
              accountTransactions :=
                (if length accountTxs = 0 then map_delete senderHex (accountTransactions pool)
                 else if map_has (accountTransactions pool) senderHex
                 then map_set senderHex accountTxs (accountTransactions pool)
                 else accountTransactions pool)\<rparr>)"

definition enforcePoolSizeLimit ::
  "((PoolTransaction \<Rightarrow> PoolTransaction \<Rightarrow> int) \<Rightarrow> PoolTransaction list \<Rightarrow> PoolTransaction list)
     \<Rightarrow> TransactionPool \<Rightarrow> TransactionPool" where
  "enforcePoolSizeLimit srt pool =
     (let totalSize = int (length (pending pool)) + int (length (queued pool))
      in if totalSize \<le> maxPoolSize (config pool) then pool
         else (let allTransactions = srt evictCompare (map snd (pending pool) @ map snd (queued pool));
                   toRemove = totalSize - maxPoolSize (config pool)
               in foldl (\<lambda>p tx. evictOne tx p) pool (take (nat toRemove) allTransactions)))"

text \<open>
  The placement step of \<open>addTransaction\<close> (the \<open>if\<close>/\<open>else if\<close>/\<open>else\<close> on the nonce and the
  \<open>accountTransactions.set\<close> after it): \<open>None\<close> when the nonce is too old.
\<close>

definition placeByNonce :: "PoolTransaction \<Rightarrow> TransactionPool \<Rightarrow> TransactionPool option" where
  "placeByNonce poolTx pool =
     (let senderHex = bytesToHex (pt_sender poolTx);
          accountTxs = accountTxsOf pool senderHex;
          currentNonce = getCurrentNonce pool (pt_sender poolTx)
      in if pt_nonce poolTx = currentNonce
         then Some (pool\<lparr>pending := map_set (pt_hash poolTx) poolTx (pending pool),
                         accountTransactions :=
                           map_set senderHex (accountTxs @ [poolTx]) (accountTransactions pool)\<rparr>)
         else if pt_nonce poolTx > currentNonce
         then Some (pool\<lparr>queued := map_set (pt_hash poolTx) poolTx (queued pool),
                         accountTransactions :=
                           map_set senderHex (accountTxs @ [poolTx]) (accountTransactions pool)\<rparr>)
         else None)"

text \<open>
  \<open>addTransaction\<close>. The transaction hash (\<open>bytesToHex(keccak_256(...))\<close>, a library
  function) is the parameter \<open>H\<close>, the clock reading is \<open>now\<close>. The priority counter is
  advanced when the entry is built, before the account limit and the nonce are looked at.
\<close>

definition addTransaction ::
  "((PoolTransaction \<Rightarrow> PoolTransaction \<Rightarrow> int) \<Rightarrow> PoolTransaction list \<Rightarrow> PoolTransaction list)
     \<Rightarrow> (Transaction \<Rightarrow> string) \<Rightarrow> int \<Rightarrow> Transaction \<Rightarrow> TransactionPool
     \<Rightarrow> addResult \<times> TransactionPool" where
  "addTransaction srt H now tx pool =
     (case poolValidate (config pool) tx of
        Some r \<Rightarrow> (NotAdded r, pool)
      | None \<Rightarrow>
          (let h = H tx in
           if map_has (pending pool) h \<or> map_has (queued pool) h then (NotAdded AlreadyInPool, pool)
           else
             (let poolTx = \<lparr>pt_transaction = tx, pt_hash = h, pt_addedTime = now,
                            pt_gasPrice = tx_gasPrice tx, pt_gasLimit = tx_gasLimit tx,
                            pt_sender = tx_from tx, pt_nonce = tx_nonce tx,
                            pt_priority = nextPriority pool\<rparr>;
                  pool1 = pool\<lparr>nextPriority := nextPriority pool + 1\<rparr>
              in if int (length (accountTxsOf pool1 (bytesToHex (tx_from tx))))
                      \<ge> maxAccountTransactions (config pool1)
                 then (NotAdded TooManyForAccount, pool1)
                 else (case placeByNonce poolTx pool1 of
                         None \<Rightarrow> (NotAdded NonceTooOld, pool1)
                       | Some pool2 \<Rightarrow> (Added, enforcePoolSizeLimit srt pool2)))))"

text \<open>\<open>promoteQueuedTransactions\<close>.\<close>

definition promoteOne :: "string \<Rightarrow> TransactionPool \<Rightarrow> TransactionPool" where
  "promoteOne h pool =
     (case map_get (queued pool) h of
        None \<Rightarrow> pool
      | Some tx \<Rightarrow> pool\<lparr>queued := map_delete h (queued pool),
                         pending := map_set h tx (pending pool)\<rparr>)"

definition promoteQueuedTransactions :: "bytes \<Rightarrow> TransactionPool \<Rightarrow> TransactionPool" where
  "promoteQueuedTransactions sender pool =
     (let accountTxs = accountTxsOf pool (bytesToHex sender);
          currentNonce = getCurrentNonce pool sender;
          toPromote = map pt_hash
             (filter (\<lambda>tx. map_has (queued pool) (pt_hash tx) \<and> pt_nonce tx = currentNonce)
                accountTxs)
      in foldl (\<lambda>p h. promoteOne h p) pool toPromote)"

text \<open>\<open>removeTransactions\<close>: one hash after the other; unknown hashes are skipped.\<close>

definition removeOne :: "string \<Rightarrow> TransactionPool \<Rightarrow> TransactionPool" where
  "removeOne h pool =
     (case (case map_get (pending pool) h of Some t \<Rightarrow> Some t | None \<Rightarrow> map_get (queued pool) h) of
        None \<Rightarrow> pool
      | Some tx \<Rightarrow>
          (let senderHex = bytesToHex (pt_sender tx);
               accountTxs = removeFromAccount h (accountTxsOf pool senderHex);
               pool1 = pool\<lparr>accountTransactions :=
                          (if length accountTxs = 0
                           then map_delete senderHex (accountTransactions pool)
                           else map_set senderHex accountTxs (accountTransactions pool)),
                        pending := map_delete h (pending pool),
                        queued := map_delete h (queued pool)\<rparr>
           in promoteQueuedTransactions (pt_sender tx) pool1))"

definition removeTransactions :: "string list \<Rightarrow> TransactionPool \<Rightarrow> TransactionPool" where
  "removeTransactions hashes pool = foldl (\<lambda>p h. removeOne h p) pool hashes"




text \<open>
  A stable insertion sort, the order \<open>Array.prototype.sort\<close> yields for a consistent
  comparator; used to run concrete pools.
\<close>

fun insertSorted :: "('a \<Rightarrow> 'a \<Rightarrow> int) \<Rightarrow> 'a \<Rightarrow> 'a list \<Rightarrow> 'a list" where
  "insertSorted cmp x [] = [x]"
| "insertSorted cmp x (y # ys) = (if cmp x y \<le> 0 then x # y # ys else y # insertSorted cmp x ys)"

definition stableSort :: "('a \<Rightarrow> 'a \<Rightarrow> int) \<Rightarrow> 'a list \<Rightarrow> 'a list" where
  "stableSort cmp xs = foldr (insertSorted cmp) xs []"

text \<open>A concrete pool configuration, transactions of one sender, and a stand-in for the hash.\<close>

definition poolConfig0 :: TxPoolConfig where
  "poolConfig0 = \<lparr>maxPoolSize = 100, maxAccountTransactions = 16, minGasPrice = 1,
     blockGasLimit = 30000000, transactionTimeout = 3600\<rparr>"

definition aliceTx :: "int \<Rightarrow> Transaction" where
  "aliceTx n = \<lparr>tx_from = alice, tx_to = Some bob, tx_value = 1, tx_gasLimit = 21000,
     tx_gasPrice = 1, tx_nonce = n, tx_data = []\<rparr>"

definition nonceTag :: "Transaction \<Rightarrow> string" where
  "nonceTag tx = ''0x'' @ bigintToHex (tx_nonce tx)"

section \<open>Transaction and receipt serialization, roots (\<open>blockchain/utils.ts\<close>)\<close>

text \<open>
  \<open>keccak_256\<close> comes from a library; it is the parameter \<open>K\<close> of everything that hashes.
\<close>

definition zeros :: "nat \<Rightarrow> bytes" where
  "zeros n = replicate n 0"

definition serializeTransaction :: "Transaction \<Rightarrow> error + bytes" where
  "serializeTransaction tx =
     bind_err (bigintToBytes (tx_value tx) 32) (\<lambda>valueB.
     bind_err (bigintToBytes (tx_gasLimit tx) 32) (\<lambda>gasLimitB.
     bind_err (bigintToBytes (tx_gasPrice tx) 32) (\<lambda>gasPriceB.
     bind_err (bigintToBytes (tx_nonce tx) 32) (\<lambda>nonceB.
       Inr (encodeList [tx_from tx, (case tx_to tx of None \<Rightarrow> zeros 20 | Some a \<Rightarrow> a),
              valueB, gasLimitB, gasPriceB, nonceB, tx_data tx])))))"

definition calculateBlockHash :: "(bytes \<Rightarrow> bytes) \<Rightarrow> Block \<Rightarrow> error + bytes" where
  "calculateBlockHash K b = bind_err (serializeBlockHeader (header b)) (\<lambda>hb. Inr (K hb))"


record Log =
  log_address :: bytes
  log_topics :: "bytes list"
  log_data :: bytes

record TransactionReceipt =
  r_transactionHash :: bytes
  r_blockNumber :: int
  r_blockHash :: bytes
  r_transactionIndex :: int
  r_gasUsed :: int
  r_cumulativeGasUsed :: int
  r_contractAddress :: "bytes option"
  r_logs :: "Log list"
  r_status :: int

definition serializeLogs :: "Log list \<Rightarrow> bytes" where
  "serializeLogs logs =
     encodeList (map (\<lambda>l. encodeList (log_address l # log_topics l @ [log_data l])) logs)"

definition serializeReceipt :: "TransactionReceipt \<Rightarrow> error + bytes" where
  "serializeReceipt r =
     bind_err (bigintToBytes (r_blockNumber r) 32) (\<lambda>blockNumberB.
     bind_err (bigintToBytes (r_transactionIndex r) 4) (\<lambda>indexB.
     bind_err (bigintToBytes (r_gasUsed r) 32) (\<lambda>gasUsedB.
     bind_err (bigintToBytes (r_cumulativeGasUsed r) 32) (\<lambda>cumulativeB.
     bind_err (bigintToBytes (r_status r) 1) (\<lambda>statusB.
       Inr (encodeList [r_transactionHash r, blockNumberB, r_blockHash r, indexB, gasUsedB,
              cumulativeB, (case r_contractAddress r of None \<Rightarrow> zeros 20 | Some a \<Rightarrow> a),
              serializeLogs (r_logs r), statusB]))))))"

fun concatSerialized :: "('a \<Rightarrow> error + bytes) \<Rightarrow> bytes \<Rightarrow> 'a list \<Rightarrow> error + bytes" where
  "concatSerialized ser acc [] = Inr acc"
| "concatSerialized ser acc (x # xs) =
     bind_err (ser x) (\<lambda>b. concatSerialized ser (acc @ b) xs)"

definition calculateReceiptsRoot :: "(bytes \<Rightarrow> bytes) \<Rightarrow> TransactionReceipt list \<Rightarrow> error + bytes" where
  "calculateReceiptsRoot K receipts =
     (if length receipts = 0 then Inr (zeros 32)
      else bind_err (concatSerialized serializeReceipt [] receipts) (\<lambda>c. Inr (K c)))"

definition calculateTransactionsRoot :: "(bytes \<Rightarrow> bytes) \<Rightarrow> Transaction list \<Rightarrow> error + bytes" where
  "calculateTransactionsRoot K txs =
     (if length txs = 0 then Inr (zeros 32)
      else bind_err (concatSerialized serializeTransaction [] txs) (\<lambda>c. Inr (K c)))"

text \<open>
  \<open>PoAConsensus.signBlockHeader\<close>: a 65-byte array with the header's hash at its start;
  \<open>signature.set(hash, 0)\<close> throws a \<open>RangeError\<close> for a hash longer than the array.
\<close>

definition signBlockHeader :: "(bytes \<Rightarrow> bytes) \<Rightarrow> BlockHeader \<Rightarrow> error + BlockHeader" where
  "signBlockHeader K h =
     (if number h = 0 then Inr h
      else bind_err (serializeBlockHeader h) (\<lambda>headerBytes.
             (let hash = K headerBytes
              in if length hash > 65 then Inl RangeError
                 else Inr (h\<lparr>signature := hash @ zeros (65 - length hash)\<rparr>))))"

section \<open>Block processor (\<open>BlockProcessor\<close>)\<close>

record BlockProcessingOptions =
  bp_maxTransactions :: int
  bp_gasLimit :: int
  bp_blockTime :: int
  bp_reward :: int


text \<open>
  \<open>Number(bigint)\<close>: the nearest double, ties to even; the rounding works on the absolute
  value. (No value met here exceeds the range of doubles.)
\<close>

function bitLength :: "int \<Rightarrow> nat" where
  "bitLength n = (if n \<le> 0 then 0 else Suc (bitLength (n div 2)))"
  by pat_completeness auto
termination
  by (relation "measure nat") auto

definition roundToDouble :: "int \<Rightarrow> int" where
  "roundToDouble n =
     (if n < 2 ^ 53 then n
      else (let e = bitLength n - 53; q = n div 2 ^ e; r = n mod 2 ^ e; half = 2 ^ (e - 1)
            in (if r > half \<or> (r = half \<and> odd q) then q + 1 else q) * 2 ^ e))"

definition jsNumber :: "int \<Rightarrow> int" where
  "jsNumber n = (if n < 0 then - roundToDouble (- n) else roundToDouble n)"









definition calculateStateRoot :: bytes where
  "calculateStateRoot = replicate 32 1"

text \<open>The header and block construction of \<open>createBlock\<close>, which touches no state.\<close>

definition buildBlock ::
  "(bytes \<Rightarrow> bytes) \<Rightarrow> int \<Rightarrow> BlockProcessingOptions \<Rightarrow> Block \<Rightarrow> bytes
     \<Rightarrow> PoolTransaction list \<Rightarrow> TransactionReceipt list \<Rightarrow> int \<Rightarrow> error + Block" where
  "buildBlock K now opts parentBlock validatorAddr poolTransactions receipts totalGasUsed =
     bind_err (calculateBlockHash K parentBlock) (\<lambda>parentH.
     bind_err (calculateTransactionsRoot K (map pt_transaction poolTransactions)) (\<lambda>txRoot.
     bind_err (calculateReceiptsRoot K receipts) (\<lambda>rcRoot.
     bind_err (signBlockHeader K
                 \<lparr>parentHash = parentH, number = number (header parentBlock) + 1,
                  timestamp = now, stateRoot = calculateStateRoot,
                  transactionsRoot = txRoot, receiptsRoot = rcRoot,
                  validator = validatorAddr, signature = [],
                  gasLimit = bp_gasLimit opts, gasUsed = totalGasUsed, extraData = []\<rparr>)
       (\<lambda>signedHeader.
          Inr \<lparr>header = signedHeader, transactions = map pt_transaction poolTransactions\<rparr>))))"



subsection \<open>Hexadecimal strings that \<open>hexToBytes\<close> accepts\<close>

definition isHex :: "char \<Rightarrow> bool" where
  "isHex c = (hexVal c \<noteq> None)"

fun okHex :: "string \<Rightarrow> bool" where
  "okHex [] = True"
| "okHex (c # cs) =
     ((isHex c \<or> (c = CHR ''-'' \<and> (case cs of [] \<Rightarrow> False | d # _ \<Rightarrow> isHex d)))
      \<and> okHex cs)"

subsection \<open>Assumptions on the pool and the runtime's sort; a concrete block creation\<close>







definition validator0 :: bytes where
  "validator0 = replicate 20 17"







definition pool1 :: TransactionPool where
  "pool1 = snd (addTransaction stableSort nonceTag 1000 (aliceTx 0) (emptyPool poolConfig0))"


section \<open>Consensus state (\<open>consensus/poa.ts\<close>)\<close>

record ValidatorInfo =
  v_address :: bytes
  v_isActive :: bool
  v_lastBlockNumber :: int
  v_lastBlockTime :: int
  v_missedBlocks :: int

text \<open>
  The validator objects are held by the \<open>validators\<close> map only (the arrays that
  \<open>getActiveValidators\<close> builds are temporary), so the map holds them by value and a
  write to an object is a write to its entry.
\<close>

record ConsensusState =
  validators :: "(string, ValidatorInfo) jsmap"
  currentValidatorIndex :: int
  cs_lastBlockNumber :: int
  cs_lastBlockTime :: int
  inactivityThreshold :: int
  cs_blockTime :: int

definition getActiveValidators :: "ConsensusState \<Rightarrow> (string \<times> ValidatorInfo) list" where
  "getActiveValidators cs = filter (\<lambda>p. v_isActive (snd p)) (validators cs)"

text \<open>
  \<open>updateMissedBlocks\<close>: \<open>block.header.number % BigInt(activeValidators.length)\<close> throws a
  \<open>RangeError\<close> (division by zero) when no validator is active.
\<close>

definition updateMissedBlocks :: "Block \<Rightarrow> ConsensusState \<Rightarrow> error + ConsensusState" where
  "updateMissedBlocks b cs =
     (let activeValidators = getActiveValidators cs
      in if number (header b) > 0 then
           (if length activeValidators = 0 then Inl RangeError
            else (let idx = nat (number (header b) mod int (length activeValidators));
                      expected = activeValidators ! idx;
                      expectedHex = bytesToHex (v_address (snd expected));
                      actualHex = bytesToHex (validator (header b))
                  in if expectedHex \<noteq> actualHex then
                       (let missed = v_missedBlocks (snd expected) + 1;
                            v1 = (snd expected)\<lparr>v_missedBlocks := missed\<rparr>;
                            v2 = (if missed \<ge> inactivityThreshold cs
                                  then v1\<lparr>v_isActive := False\<rparr> else v1)
                        in Inr (cs\<lparr>validators := map_set (fst expected) v2 (validators cs)\<rparr>))
                     else Inr cs))
         else Inr cs)"

text \<open>
  \<open>updateValidatorState\<close>: the producer's entry is written before \<open>updateMissedBlocks\<close>
  runs, so an exception of the latter leaves that write in place; the result is the
  exception, if any, and the state.
\<close>

definition updateValidatorState :: "Block \<Rightarrow> ConsensusState \<Rightarrow> error option \<times> ConsensusState" where
  "updateValidatorState b cs =
     (let validatorHex = bytesToHex (validator (header b));
          cs1 = (case map_get (validators cs) validatorHex of
                   None \<Rightarrow> cs
                 | Some v \<Rightarrow>
                     cs\<lparr>validators := map_set validatorHex
                          (v\<lparr>v_lastBlockNumber := number (header b),
                             v_lastBlockTime := timestamp (header b),
                             v_missedBlocks := 0\<rparr>) (validators cs)\<rparr>)
      in (case updateMissedBlocks b cs1 of
            Inl e \<Rightarrow> (Some e, cs1)
          | Inr cs2 \<Rightarrow> (None, cs2\<lparr>cs_lastBlockNumber := number (header b),
                                    cs_lastBlockTime := timestamp (header b)\<rparr>)))"

section \<open>Block validation (\<open>PoAConsensus.validateBlockHeader\<close>, \<open>BlockProcessor.validateBlock\<close>)\<close>











section \<open>Chain manager: reorganization (\<open>BlockchainManager.handleReorg\<close>)\<close>

text \<open>
  The persistent store is an opaque key-value mapping; of \<open>BlockchainStorage\<close> the model
  keeps the blocks by hash and the chain tip.
\<close>

record Storage =
  st_blocks :: "(string, Block) jsmap"
  st_tip :: "string option"

definition getBlock :: "Storage \<Rightarrow> string \<Rightarrow> Block option" where
  "getBlock st h = map_get (st_blocks st) h"

definition getChainTip :: "Storage \<Rightarrow> Block option" where
  "getChainTip st = (case st_tip st of None \<Rightarrow> None | Some h \<Rightarrow> getBlock st h)"

definition deleteBlock :: "string \<Rightarrow> Storage \<Rightarrow> Storage" where
  "deleteBlock h st =
     (case getBlock st h of None \<Rightarrow> st
      | Some b \<Rightarrow> st\<lparr>st_blocks := map_delete h (st_blocks st)\<rparr>)"

text \<open>
  \<open>JSON.stringify\<close> throws a \<open>TypeError\<close> when it meets a \<open>bigint\<close>. A header always holds
  some (\<open>number\<close>, \<open>timestamp\<close>, \<open>gasLimit\<close>, \<open>gasUsed\<close>), and so does a transaction
  (\<open>value\<close>, \<open>gasLimit\<close>, \<open>gasPrice\<close>, \<open>nonce\<close>).
\<close>

definition jsonStringifyHeader :: "BlockHeader \<Rightarrow> error + string" where
  "jsonStringifyHeader h = Inl TypeError"

definition jsonStringifyTransaction :: "Transaction \<Rightarrow> error + string" where
  "jsonStringifyTransaction tx = Inl TypeError"

text \<open>
  \<open>storeBlock\<close> computes the hash of the serialized header (\<open>K\<close>), then builds the JSON text
  of \<open>{header: block.header, transactions: ...}\<close> and files it under the hash, making the
  block the tip. Its \<open>catch\<close> rethrows everything as "Failed to store block".
\<close>

definition storeBlock :: "(bytes \<Rightarrow> bytes) \<Rightarrow> Block \<Rightarrow> Storage \<Rightarrow> error + Storage" where
  "storeBlock K b st =
     (case bind_err (calculateBlockHash K b) (\<lambda>h.
             bind_err (jsonStringifyHeader (header b)) (\<lambda>blockJson.
               Inr (st\<lparr>st_blocks := map_set (bytesToHex h) b (st_blocks st),
                       st_tip := Some (bytesToHex h)\<rparr>))) of
        Inl e \<Rightarrow> Inl FailedToStoreBlock
      | Inr st' \<Rightarrow> Inr st')"

record Manager =
  m_storage :: Storage
  m_consensus :: ConsensusState
  m_txPool :: TransactionPool

text \<open>
  The manager has hash helpers of its own, \<open>calculateBlockHash\<close> and
  \<open>calculateTransactionHash\<close>: \<open>JSON.stringify\<close> of the header or of the transaction,
  then a 32-bit mix of the text's bytes, rendered in hexadecimal (\<open>mix\<close>). They throw
  before the mix is reached.
\<close>

definition managerBlockHash :: "(string \<Rightarrow> string) \<Rightarrow> BlockHeader \<Rightarrow> error + string" where
  "managerBlockHash mix h = bind_err (jsonStringifyHeader h) (\<lambda>txJson. Inr (mix txJson))"

definition managerTransactionHash :: "(string \<Rightarrow> string) \<Rightarrow> Transaction \<Rightarrow> error + string" where
  "managerTransactionHash mix tx =
     bind_err (jsonStringifyTransaction tx) (\<lambda>txJson. Inr (mix txJson))"

text \<open>\<open>xs.map(f)\<close> for an \<open>f\<close> that can throw: the first exception ends it.\<close>

fun mapErr :: "('a \<Rightarrow> error + 'b) \<Rightarrow> 'a list \<Rightarrow> error + 'b list" where
  "mapErr f [] = Inr []"
| "mapErr f (x # xs) = bind_err (f x) (\<lambda>y. bind_err (mapErr f xs) (\<lambda>ys. Inr (y # ys)))"

text \<open>
  The loops of \<open>handleReorg\<close> are written over the two helpers, \<open>MH\<close> for a header and \<open>MT\<close>
  for a transaction; the manager's own are \<open>managerBlockHash mix\<close> and
  \<open>managerTransactionHash mix\<close>.

  The walk back over the old chain. Each round deletes the current block, hands the
  current block's transactions to \<open>txPool.removeTransactions\<close>, and looks the next block
  up under the hash of the current block's own header; when none is found the current
  block stays. With helpers that return, the loop need not end, so it is a partial
  function: \<open>None\<close> is "does not return"; otherwise the result is the exception thrown (if
  any) and the manager's state.
\<close>

partial_function (option) walkBack ::
  "(BlockHeader \<Rightarrow> error + string) \<Rightarrow> (Transaction \<Rightarrow> error + string) \<Rightarrow> Block \<Rightarrow> Block
     \<Rightarrow> Manager \<Rightarrow> (error option \<times> Manager) option" where
  "walkBack MH MT ancestor currentBlock m =
     (if number (header currentBlock) > number (header ancestor) then
        (case MH (header currentBlock) of
           Inl e \<Rightarrow> Some (Some e, m)
         | Inr blockHash \<Rightarrow>
             (case mapErr MT (transactions currentBlock) of
                Inl e \<Rightarrow> Some (Some e, m\<lparr>m_storage := deleteBlock blockHash (m_storage m)\<rparr>)
              | Inr hashes \<Rightarrow>
                  (case MH (header currentBlock) of
                     Inl e \<Rightarrow>
                       Some (Some e, m\<lparr>m_storage := deleteBlock blockHash (m_storage m),
                                        m_txPool := removeTransactions hashes (m_txPool m)\<rparr>)
                   | Inr parentKey \<Rightarrow>
                       walkBack MH MT ancestor
                         (case getBlock (deleteBlock blockHash (m_storage m)) parentKey of
                            None \<Rightarrow> currentBlock | Some parentBlock \<Rightarrow> parentBlock)
                         (m\<lparr>m_storage := deleteBlock blockHash (m_storage m),
                            m_txPool := removeTransactions hashes (m_txPool m)\<rparr>))))
      else Some (None, m))"

text \<open>The second loop: store each block of the new chain, update the validators, prune the pool.\<close>

fun applyNewChain ::
  "(bytes \<Rightarrow> bytes) \<Rightarrow> (Transaction \<Rightarrow> error + string) \<Rightarrow> Block list \<Rightarrow> Manager
     \<Rightarrow> error option \<times> Manager" where
  "applyNewChain K MT [] m = (None, m)"
| "applyNewChain K MT (b # bs) m =
     (case storeBlock K b (m_storage m) of
        Inl e \<Rightarrow> (Some e, m)
      | Inr st \<Rightarrow>
          (case updateValidatorState b (m_consensus m) of
             (Some e, cs) \<Rightarrow> (Some e, m\<lparr>m_storage := st, m_consensus := cs\<rparr>)
           | (None, cs) \<Rightarrow>
               (case mapErr MT (transactions b) of
                  Inl e \<Rightarrow> (Some e, m\<lparr>m_storage := st, m_consensus := cs\<rparr>)
                | Inr hashes \<Rightarrow>
                    applyNewChain K MT bs
                      (m\<lparr>m_storage := st, m_consensus := cs,
                         m_txPool := removeTransactions hashes (m_txPool m)\<rparr>))))"

text \<open>
  \<open>handleReorg\<close>: \<open>None\<close> when it does not return, else the exception thrown (if any)
  and the manager's state.
\<close>

definition handleReorg ::
  "(bytes \<Rightarrow> bytes) \<Rightarrow> (BlockHeader \<Rightarrow> error + string) \<Rightarrow> (Transaction \<Rightarrow> error + string)
     \<Rightarrow> Block \<Rightarrow> ForkChoiceResult \<Rightarrow> Manager \<Rightarrow> (error option \<times> Manager) option" where
  "handleReorg K MH MT newBlock forkChoice m =
     (case (newChain forkChoice, commonAncestor forkChoice) of
        (Some chain, Some ancestor) \<Rightarrow>
          (case (case getChainTip (m_storage m) of
                   None \<Rightarrow> Some (None, m)
                 | Some currentTip \<Rightarrow> walkBack MH MT ancestor currentTip m) of
             None \<Rightarrow> None
           | Some (Some e, m1) \<Rightarrow> Some (Some e, m1)
           | Some (None, m1) \<Rightarrow> Some (applyNewChain K MT chain m1))
      | _ \<Rightarrow> Some (Some InvalidForkChoice, m))"

section \<open>Virtual machine: execution context (\<open>evm/executionContext.ts\<close>)\<close>

record BlockEnv =
  be_number :: int
  be_timestamp :: int
  be_coinbase :: bytes
  be_gasLimit :: int

record Env =
  env_address :: bytes
  env_caller :: bytes
  env_origin :: bytes
  env_value :: int
  env_gasPrice :: int
  env_block :: BlockEnv
  env_chainId :: int

text \<open>
  The stack is a list with the top at its head (the source pushes at the end of an
  array). \<open>stackMinus1\<close> is the array property \<open>"-1"\<close> that \<open>swap\<close> can read and write;
  it reads \<open>undefined\<close> until it is written. The world is the object all contexts share.
\<close>

record ExecutionContext =
  ctx_code :: bytes
  pc :: nat
  stack :: "jsval list"
  stackMinus1 :: jsval
  memory :: bytes
  gasLeft :: int
  returnData :: bytes
  calldata :: bytes
  world :: World
  env :: Env
  stopped :: bool
  reverted :: bool

definition newContext :: "bytes \<Rightarrow> World \<Rightarrow> Env \<Rightarrow> int \<Rightarrow> bytes \<Rightarrow> ExecutionContext" where
  "newContext c w e gl cd =
     \<lparr>ctx_code = c, pc = 0, stack = [], stackMinus1 = Undef, memory = [], gasLeft = gl,
      returnData = [], calldata = cd, world = w, env = e, stopped = False, reverted = False\<rparr>"

text \<open>
  A method of the context either returns a value or throws; in both cases the context
  is left in some state, which the caller's \<open>catch\<close> can still read.
\<close>

type_synonym 'a vmres = "(error + 'a) \<times> ExecutionContext"

definition returnV :: "'a \<Rightarrow> ExecutionContext \<Rightarrow> 'a vmres" where
  "returnV x ctx = (Inr x, ctx)"

definition throwV :: "error \<Rightarrow> ExecutionContext \<Rightarrow> 'a vmres" where
  "throwV e ctx = (Inl e, ctx)"

definition bindV ::
  "(ExecutionContext \<Rightarrow> 'a vmres) \<Rightarrow> ('a \<Rightarrow> ExecutionContext \<Rightarrow> 'b vmres)
     \<Rightarrow> ExecutionContext \<Rightarrow> 'b vmres" where
  "bindV m f ctx = (case m ctx of (Inl e, ctx') \<Rightarrow> (Inl e, ctx') | (Inr x, ctx') \<Rightarrow> f x ctx')"

definition liftE :: "error + 'a \<Rightarrow> ExecutionContext \<Rightarrow> 'a vmres" where
  "liftE r ctx = (r, ctx)"

subsection \<open>JavaScript operators on run-time values\<close>

text \<open>The numeric value a comparison uses: none for \<open>NaN\<close> and \<open>undefined\<close>.\<close>

definition numOf :: "jsval \<Rightarrow> int option" where
  "numOf v = (case v of Big n \<Rightarrow> Some n | NumZero \<Rightarrow> Some 0 | _ \<Rightarrow> None)"

definition js_lt :: "jsval \<Rightarrow> jsval \<Rightarrow> bool" where
  "js_lt a b = (case (numOf a, numOf b) of (Some x, Some y) \<Rightarrow> x < y | _ \<Rightarrow> False)"

definition js_gt :: "jsval \<Rightarrow> jsval \<Rightarrow> bool" where
  "js_gt a b = js_lt b a"

definition js_ge :: "jsval \<Rightarrow> jsval \<Rightarrow> bool" where
  "js_ge a b = (case (numOf a, numOf b) of (Some x, Some y) \<Rightarrow> x \<ge> y | _ \<Rightarrow> False)"

text \<open>Strict equality \<open>===\<close>: never across types, and \<open>NaN\<close> equals nothing.\<close>

definition js_seq :: "jsval \<Rightarrow> jsval \<Rightarrow> bool" where
  "js_seq a b =
     (case (a, b) of (Big x, Big y) \<Rightarrow> x = y | (NumZero, NumZero) \<Rightarrow> True
      | (Undef, Undef) \<Rightarrow> True | _ \<Rightarrow> False)"

text \<open>
  A binary operator of two \<open>bigint\<close>s computes on them; of a \<open>bigint\<close> and anything else
  it throws a \<open>TypeError\<close>; of two other values it computes on numbers, where
  \<open>undefined\<close> counts as \<open>NaN\<close> for the arithmetic and as 0 for the bit operators.
\<close>

definition js_binop ::
  "(int \<Rightarrow> int \<Rightarrow> error + jsval) \<Rightarrow> (jsval \<Rightarrow> jsval \<Rightarrow> jsval) \<Rightarrow> jsval \<Rightarrow> jsval \<Rightarrow> error + jsval"
  where
  "js_binop onBig onNum a b =
     (case (a, b) of
        (Big x, Big y) \<Rightarrow> onBig x y
      | (Big x, _) \<Rightarrow> Inl TypeError
      | (_, Big y) \<Rightarrow> Inl TypeError
      | _ \<Rightarrow> Inr (onNum a b))"

text \<open>\<open>0 + 0\<close>, \<open>0 - 0\<close> and \<open>0 * 0\<close> are 0; with \<open>NaN\<close> or \<open>undefined\<close> the result is \<open>NaN\<close>.\<close>

definition numArith :: "jsval \<Rightarrow> jsval \<Rightarrow> jsval" where
  "numArith a b = (if a = NumZero \<and> b = NumZero then NumZero else NumNaN)"

definition js_add :: "jsval \<Rightarrow> jsval \<Rightarrow> error + jsval" where
  "js_add = js_binop (\<lambda>x y. Inr (Big (x + y))) numArith"

definition js_sub :: "jsval \<Rightarrow> jsval \<Rightarrow> error + jsval" where
  "js_sub = js_binop (\<lambda>x y. Inr (Big (x - y))) numArith"

definition js_mul :: "jsval \<Rightarrow> jsval \<Rightarrow> error + jsval" where
  "js_mul = js_binop (\<lambda>x y. Inr (Big (x * y))) numArith"

text \<open>
  \<open>/\<close> and \<open>%\<close> on \<open>bigint\<close>s truncate toward zero and throw a \<open>RangeError\<close> for a zero
  divisor; on the numbers 0 and \<open>NaN\<close> they give \<open>NaN\<close>.
\<close>

definition js_div :: "jsval \<Rightarrow> jsval \<Rightarrow> error + jsval" where
  "js_div = js_binop (\<lambda>x y. if y = 0 then Inl RangeError else Inr (Big (x sdiv y)))
              (\<lambda>a b. NumNaN)"

definition js_mod :: "jsval \<Rightarrow> jsval \<Rightarrow> error + jsval" where
  "js_mod = js_binop (\<lambda>x y. if y = 0 then Inl RangeError else Inr (Big (x smod y)))
              (\<lambda>a b. NumNaN)"

definition js_and :: "jsval \<Rightarrow> jsval \<Rightarrow> error + jsval" where
  "js_and = js_binop (\<lambda>x y. Inr (Big (x AND y))) (\<lambda>a b. NumZero)"

definition js_or :: "jsval \<Rightarrow> jsval \<Rightarrow> error + jsval" where
  "js_or = js_binop (\<lambda>x y. Inr (Big (x OR y))) (\<lambda>a b. NumZero)"

definition js_xor :: "jsval \<Rightarrow> jsval \<Rightarrow> error + jsval" where
  "js_xor = js_binop (\<lambda>x y. Inr (Big (x XOR y))) (\<lambda>a b. NumZero)"

text \<open>Shifts of \<open>bigint\<close>s: a negative count shifts the other way.\<close>

definition bigShl :: "int \<Rightarrow> int \<Rightarrow> int" where
  "bigShl v s = (if s \<ge> 0 then push_bit (nat s) v else drop_bit (nat (- s)) v)"

definition bigShr :: "int \<Rightarrow> int \<Rightarrow> int" where
  "bigShr v s = (if s \<ge> 0 then drop_bit (nat s) v else push_bit (nat (- s)) v)"

definition js_shl :: "jsval \<Rightarrow> jsval \<Rightarrow> error + jsval" where
  "js_shl = js_binop (\<lambda>v s. Inr (Big (bigShl v s))) (\<lambda>a b. NumZero)"

definition js_shr :: "jsval \<Rightarrow> jsval \<Rightarrow> error + jsval" where
  "js_shr = js_binop (\<lambda>v s. Inr (Big (bigShr v s))) (\<lambda>a b. NumZero)"

definition mask256 :: int where
  "mask256 = 2 ^ 256 - 1"

text \<open>
  \<open>Number(v)\<close> of a popped value: \<open>None\<close> is \<open>NaN\<close>. \<open>push\<close> admits no negative
  \<open>bigint\<close>, so the \<open>bigint\<close>s met here are non-negative.
\<close>

definition toNumber :: "jsval \<Rightarrow> nat option" where
  "toNumber v = (case v of Big n \<Rightarrow> Some (nat (jsNumber n)) | NumZero \<Rightarrow> Some 0 | _ \<Rightarrow> None)"

subsection \<open>Stack, gas, memory, jumps\<close>

definition push :: "jsval \<Rightarrow> ExecutionContext \<Rightarrow> unit vmres" where
  "push v ctx =
     (if length (stack ctx) \<ge> 1024 then throwV StackOverflow ctx
      else if js_lt v (Big 0) \<or> js_gt v (Big mask256) then throwV InvalidStackValue ctx
      else returnV () (ctx\<lparr>stack := v # stack ctx\<rparr>))"

definition pop :: "ExecutionContext \<Rightarrow> jsval vmres" where
  "pop ctx =
     (case stack ctx of
        [] \<Rightarrow> throwV StackUnderflow ctx
      | v # vs \<Rightarrow> returnV v (ctx\<lparr>stack := vs\<rparr>))"

text \<open>
  \<open>swap(index)\<close> exchanges the top with the element \<open>index + 1\<close> below it. Its guard lets
  \<open>index = length - 1\<close> through; the partner is then \<open>stack[-1]\<close>.
\<close>

definition swap :: "nat \<Rightarrow> ExecutionContext \<Rightarrow> unit vmres" where
  "swap i ctx =
     (if i \<ge> length (stack ctx) then throwV StackUnderflow ctx
      else if Suc i < length (stack ctx)
      then returnV () (ctx\<lparr>stack := (stack ctx)[0 := stack ctx ! Suc i, Suc i := stack ctx ! 0]\<rparr>)
      else returnV () (ctx\<lparr>stack := (stack ctx)[0 := stackMinus1 ctx],
                           stackMinus1 := stack ctx ! 0\<rparr>))"

definition dup :: "nat \<Rightarrow> ExecutionContext \<Rightarrow> unit vmres" where
  "dup i ctx =
     (if i \<ge> length (stack ctx) then throwV StackUnderflow ctx
      else push (stack ctx ! i) ctx)"

definition useGas :: "int \<Rightarrow> ExecutionContext \<Rightarrow> unit vmres" where
  "useGas amount ctx =
     (if amount < 0 then throwV NegativeGasConsumption ctx
      else if gasLeft ctx < amount then throwV OutOfGas ctx
      else returnV () (ctx\<lparr>gasLeft := gasLeft ctx - amount\<rparr>))"

text \<open>
  \<open>new Uint8Array(n)\<close> throws a \<open>RangeError\<close> beyond the largest array index the language
  allows; running out of host memory is not modelled.
\<close>

definition maxArrayLength :: nat where
  "maxArrayLength = 2 ^ 53 - 1"

definition expandMemory :: "nat \<Rightarrow> ExecutionContext \<Rightarrow> unit vmres" where
  "expandMemory requiredSize ctx =
     (if length (memory ctx) < requiredSize then
        (if requiredSize > maxArrayLength then throwV RangeError ctx
         else returnV () (ctx\<lparr>memory := memory ctx @ zeros (requiredSize - length (memory ctx))\<rparr>))
      else returnV () ctx)"

text \<open>
  \<open>readMemory\<close>. With a \<open>NaN\<close> among offset and size nothing is expanded and
  \<open>slice(NaN, ...)\<close> or \<open>slice(_, NaN)\<close> is empty.
\<close>

definition readMemory :: "nat option \<Rightarrow> nat option \<Rightarrow> ExecutionContext \<Rightarrow> bytes vmres" where
  "readMemory offset len ctx =
     (if len = Some 0 then returnV [] ctx
      else (case (offset, len) of
              (Some off, Some sz) \<Rightarrow>
                 bindV (expandMemory (off + sz))
                   (\<lambda>_ c. returnV (slice (memory c) off (off + sz)) c) ctx
            | _ \<Rightarrow> returnV [] ctx))"

text \<open>
  \<open>writeMemory\<close>. \<open>memory.set(data, NaN)\<close> writes at offset 0 and throws a \<open>RangeError\<close>
  when the data does not fit.
\<close>

definition writeMemory :: "nat option \<Rightarrow> bytes \<Rightarrow> ExecutionContext \<Rightarrow> unit vmres" where
  "writeMemory offset data ctx =
     (if length data = 0 then returnV () ctx
      else (case offset of
              Some off \<Rightarrow>
                 bindV (expandMemory (off + length data))
                   (\<lambda>_ c. returnV () (c\<lparr>memory := take off (memory c) @ data
                                             @ drop (off + length data) (memory c)\<rparr>)) ctx
            | None \<Rightarrow>
                 if length data > length (memory ctx) then throwV RangeError ctx
                 else returnV () (ctx\<lparr>memory := data @ drop (length data) (memory ctx)\<rparr>)))"

text \<open>\<open>writeMemoryWord\<close>: \<open>bigintToBytes(value, 32)\<close> goes through \<open>value.toString(16)\<close>.\<close>

definition jsvalToBytes :: "jsval \<Rightarrow> nat \<Rightarrow> error + bytes" where
  "jsvalToBytes v len =
     bind_err (jsToString16 v) (\<lambda>s. hexToBytes (padStart (len * 2) (CHR ''0'') s))"

definition writeMemoryWord :: "nat option \<Rightarrow> jsval \<Rightarrow> ExecutionContext \<Rightarrow> unit vmres" where
  "writeMemoryWord offset v ctx =
     bindV (liftE (jsvalToBytes v 32)) (\<lambda>bs. writeMemory offset bs) ctx"

text \<open>
  \<open>jump\<close>: the destination must be inside the code and the byte there must be \<open>0x5b\<close>.
  For \<open>NaN\<close> the byte read is \<open>undefined\<close>, which is not \<open>0x5b\<close>.
\<close>

definition jump :: "nat option \<Rightarrow> ExecutionContext \<Rightarrow> unit vmres" where
  "jump destination ctx =
     (case destination of
        None \<Rightarrow> throwV InvalidJumpDestination ctx
      | Some d \<Rightarrow>
          if d \<ge> length (ctx_code ctx) then throwV InvalidJumpDestination ctx
          else if ctx_code ctx ! d \<noteq> 0x5b then throwV InvalidJumpDestination ctx
          else returnV () (ctx\<lparr>pc := d\<rparr>))"

text \<open>\<open>ExecutionContext.jumpi\<close> (the \<open>JUMPI\<close> handler does not call it).\<close>

definition jumpi :: "jsval \<Rightarrow> ExecutionContext \<Rightarrow> unit vmres" where
  "jumpi condition ctx =
     bindV pop (\<lambda>d c. if \<not> js_seq condition (Big 0) then jump (toNumber d) c
                        else returnV () c) ctx"

definition readCalldata :: "nat option \<Rightarrow> nat option \<Rightarrow> ExecutionContext \<Rightarrow> bytes" where
  "readCalldata offset len ctx =
     (case offset of
        None \<Rightarrow> []
      | Some off \<Rightarrow>
          if off \<ge> length (calldata ctx) then []
          else (case len of
                  None \<Rightarrow> []
                | Some sz \<Rightarrow> slice (calldata ctx) off (min (off + sz) (length (calldata ctx)))))"

definition stop :: "bytes \<Rightarrow> ExecutionContext \<Rightarrow> unit vmres" where
  "stop rd ctx = returnV () (ctx\<lparr>returnData := rd, stopped := True\<rparr>)"

definition revertCtx :: "bytes \<Rightarrow> ExecutionContext \<Rightarrow> unit vmres" where
  "revertCtx rd ctx = returnV () (ctx\<lparr>returnData := rd, reverted := True, stopped := True\<rparr>)"

definition getCurrentOpcode :: "ExecutionContext \<Rightarrow> nat" where
  "getCurrentOpcode ctx =
     (if pc ctx \<ge> length (ctx_code ctx) then 0 else unat (ctx_code ctx ! pc ctx))"

definition readBytes :: "nat \<Rightarrow> ExecutionContext \<Rightarrow> bytes vmres" where
  "readBytes count ctx =
     (if pc ctx + count > length (ctx_code ctx) then throwV CodeOutOfBounds ctx
      else returnV (slice (ctx_code ctx) (pc ctx) (pc ctx + count)) (ctx\<lparr>pc := pc ctx + count\<rparr>))"

definition readPushData :: "ExecutionContext \<Rightarrow> bytes vmres" where
  "readPushData ctx =
     (let opcode = getCurrentOpcode ctx
      in if opcode < 0x60 \<or> opcode > 0x7f then throwV NotAPushInstruction ctx
         else readBytes (opcode - 0x60 + 1) (ctx\<lparr>pc := pc ctx + 1\<rparr>))"

section \<open>Virtual machine: opcode handlers (\<open>evm/opcodes.ts\<close>)\<close>

definition thenV ::
  "(ExecutionContext \<Rightarrow> unit vmres) \<Rightarrow> (ExecutionContext \<Rightarrow> 'b vmres)
     \<Rightarrow> ExecutionContext \<Rightarrow> 'b vmres" where
  "thenV m k = bindV m (\<lambda>_. k)"

text \<open>
  The handlers of the binary operators all read: charge the gas, pop \<open>a\<close>, pop \<open>b\<close>,
  evaluate an expression in \<open>a\<close> and \<open>b\<close>, push its value.
\<close>

definition binaryOp ::
  "int \<Rightarrow> (jsval \<Rightarrow> jsval \<Rightarrow> error + jsval) \<Rightarrow> ExecutionContext \<Rightarrow> unit vmres" where
  "binaryOp cost f =
     thenV (useGas cost) (bindV pop (\<lambda>a. bindV pop (\<lambda>b. bindV (liftE (f a b)) push)))"

definition unaryOp ::
  "int \<Rightarrow> (jsval \<Rightarrow> error + jsval) \<Rightarrow> ExecutionContext \<Rightarrow> unit vmres" where
  "unaryOp cost f = thenV (useGas cost) (bindV pop (\<lambda>a. bindV (liftE (f a)) push))"

definition op_STOP :: "ExecutionContext \<Rightarrow> unit vmres" where
  "op_STOP = thenV (useGas 0) (stop [])"

definition op_ADD :: "ExecutionContext \<Rightarrow> unit vmres" where
  "op_ADD = binaryOp 3 (\<lambda>a b. bind_err (js_add a b) (\<lambda>s. js_and s (Big mask256)))"

definition op_MUL :: "ExecutionContext \<Rightarrow> unit vmres" where
  "op_MUL = binaryOp 5 (\<lambda>a b. bind_err (js_mul a b) (\<lambda>s. js_and s (Big mask256)))"

definition op_SUB :: "ExecutionContext \<Rightarrow> unit vmres" where
  "op_SUB = binaryOp 3 (\<lambda>a b. bind_err (js_sub a b) (\<lambda>s. js_and s (Big mask256)))"

definition op_DIV :: "ExecutionContext \<Rightarrow> unit vmres" where
  "op_DIV = binaryOp 5 (\<lambda>a b. if js_seq b (Big 0) then Inr (Big 0) else js_div a b)"

definition op_MOD :: "ExecutionContext \<Rightarrow> unit vmres" where
  "op_MOD = binaryOp 5 (\<lambda>a b. if js_seq b (Big 0) then Inr (Big 0) else js_mod a b)"

text \<open>
  \<open>expmod\<close>: square and multiply. The loop runs while \<open>e > 0\<close> and halves \<open>e\<close>.
\<close>

function expmodLoop :: "int \<Rightarrow> int \<Rightarrow> int \<Rightarrow> int \<Rightarrow> int" where
  "expmodLoop result b e modulus =
     (if e > 0
      then expmodLoop (if e smod 2 = 1 then (result * b) smod modulus else result)
             ((b * b) smod modulus) (bigShr e 1) modulus
      else result)"
  by pat_completeness auto
termination
  by (relation "measure (\<lambda>(result, b, e, modulus). nat e)") (auto simp: bigShr_def drop_bit_eq_div)

text \<open>
  With run-time values: \<open>base % modulus\<close> throws for a base that is no \<open>bigint\<close>; an
  exponent that is no \<open>bigint\<close> is never \<open>> 0\<close>, so the loop is skipped.
\<close>

definition expmod :: "jsval \<Rightarrow> jsval \<Rightarrow> int \<Rightarrow> error + jsval" where
  "expmod base exponent modulus =
     (if modulus = 1 then Inr (Big 0)
      else bind_err (js_mod base (Big modulus)) (\<lambda>b0.
        (case (b0, exponent) of
           (Big b, Big e) \<Rightarrow> Inr (Big (expmodLoop 1 b e modulus))
         | _ \<Rightarrow> Inr (Big 1))))"

definition op_EXP :: "ExecutionContext \<Rightarrow> unit vmres" where
  "op_EXP = binaryOp 10 (\<lambda>base exponent. expmod base exponent (2 ^ 256))"

definition boolWord :: "bool \<Rightarrow> jsval" where
  "boolWord c = Big (if c then 1 else 0)"

definition op_LT :: "ExecutionContext \<Rightarrow> unit vmres" where
  "op_LT = binaryOp 3 (\<lambda>a b. Inr (boolWord (js_lt a b)))"

definition op_GT :: "ExecutionContext \<Rightarrow> unit vmres" where
  "op_GT = binaryOp 3 (\<lambda>a b. Inr (boolWord (js_gt a b)))"

definition op_EQ :: "ExecutionContext \<Rightarrow> unit vmres" where
  "op_EQ = binaryOp 3 (\<lambda>a b. Inr (boolWord (js_seq a b)))"

definition op_ISZERO :: "ExecutionContext \<Rightarrow> unit vmres" where
  "op_ISZERO = unaryOp 3 (\<lambda>v. Inr (boolWord (js_seq v (Big 0))))"

definition op_AND :: "ExecutionContext \<Rightarrow> unit vmres" where
  "op_AND = binaryOp 3 js_and"

definition op_OR :: "ExecutionContext \<Rightarrow> unit vmres" where
  "op_OR = binaryOp 3 js_or"

definition op_XOR :: "ExecutionContext \<Rightarrow> unit vmres" where
  "op_XOR = binaryOp 3 js_xor"

text \<open>\<open>~v\<close> of a \<open>bigint\<close> is its complement; of anything else it is a number, and \<open>&\<close> then throws.\<close>

definition js_not_masked :: "jsval \<Rightarrow> error + jsval" where
  "js_not_masked v = (case v of Big n \<Rightarrow> js_and (Big (NOT n)) (Big mask256) | _ \<Rightarrow> Inl TypeError)"

definition op_NOT :: "ExecutionContext \<Rightarrow> unit vmres" where
  "op_NOT = unaryOp 3 js_not_masked"

definition op_SHL :: "ExecutionContext \<Rightarrow> unit vmres" where
  "op_SHL = binaryOp 3 (\<lambda>shift v.
     if js_ge shift (Big 256) then Inr (Big 0)
     else bind_err (js_shl v shift) (\<lambda>s. js_and s (Big mask256)))"

definition op_SHR :: "ExecutionContext \<Rightarrow> unit vmres" where
  "op_SHR = binaryOp 3 (\<lambda>shift v.
     if js_ge shift (Big 256) then Inr (Big 0) else js_shr v shift)"

definition sarMask :: "jsval \<Rightarrow> error + jsval" where
  "sarMask shift =
     bind_err (js_shl (Big 1) shift) (\<lambda>t.
     bind_err (js_sub t (Big 1)) (\<lambda>u.
     bind_err (js_sub (Big 256) shift) (\<lambda>d. js_shl u d)))"

definition op_SAR :: "ExecutionContext \<Rightarrow> unit vmres" where
  "op_SAR = binaryOp 3 (\<lambda>shift v.
     (let isNegative = js_ge v (Big (2 ^ 255))
      in if js_ge shift (Big 256) then Inr (Big (if isNegative then mask256 else 0))
         else bind_err (js_shr v shift) (\<lambda>result.
              bind_err (if isNegative then bind_err (sarMask shift) (\<lambda>m. js_or result m)
                        else Inr result) (\<lambda>result'.
              js_and result' (Big mask256)))))"

definition pushBig :: "error + int \<Rightarrow> ExecutionContext \<Rightarrow> unit vmres" where
  "pushBig r = bindV (liftE r) (\<lambda>n. push (Big n))"

definition op_ADDRESS :: "ExecutionContext \<Rightarrow> unit vmres" where
  "op_ADDRESS = thenV (useGas 2) (\<lambda>ctx. pushBig (bytesToBigint (env_address (env ctx))) ctx)"

definition op_CALLER :: "ExecutionContext \<Rightarrow> unit vmres" where
  "op_CALLER = thenV (useGas 2) (\<lambda>ctx. pushBig (bytesToBigint (env_caller (env ctx))) ctx)"

definition op_CALLVALUE :: "ExecutionContext \<Rightarrow> unit vmres" where
  "op_CALLVALUE = thenV (useGas 2) (\<lambda>ctx. push (Big (env_value (env ctx))) ctx)"

definition op_CALLDATALOAD :: "ExecutionContext \<Rightarrow> unit vmres" where
  "op_CALLDATALOAD =
     thenV (useGas 3) (bindV pop (\<lambda>v ctx.
       (let dat = readCalldata (toNumber v) (Some 32) ctx;
            padded = dat @ zeros (32 - length dat)
        in pushBig (bytesToBigint padded) ctx)))"

definition op_CALLDATASIZE :: "ExecutionContext \<Rightarrow> unit vmres" where
  "op_CALLDATASIZE = thenV (useGas 2) (\<lambda>ctx. push (Big (int (length (calldata ctx)))) ctx)"

definition op_CALLDATACOPY :: "ExecutionContext \<Rightarrow> unit vmres" where
  "op_CALLDATACOPY =
     thenV (useGas 3) (bindV pop (\<lambda>destOffset. bindV pop (\<lambda>offset. bindV pop (\<lambda>len ctx.
       writeMemory (toNumber destOffset)
         (readCalldata (toNumber offset) (toNumber len) ctx) ctx))))"

definition op_CODESIZE :: "ExecutionContext \<Rightarrow> unit vmres" where
  "op_CODESIZE = thenV (useGas 2) (\<lambda>ctx. push (Big (int (length (ctx_code ctx)))) ctx)"

text \<open>
  \<open>CODECOPY\<close>. With a \<open>NaN\<close> among offset and size, \<open>end\<close> and \<open>actualSize\<close> are \<open>NaN\<close> or
  the slice is empty, and \<open>actualSize < size\<close> is false or the padding has length 0:
  nothing is written.
\<close>

definition codeCopyData :: "nat option \<Rightarrow> nat option \<Rightarrow> bytes \<Rightarrow> error + bytes" where
  "codeCopyData offset len c =
     (case (offset, len) of
        (Some off, Some sz) \<Rightarrow>
          (let end = min (off + sz) (length c);
               actualSize = end - off;
               dat = slice c off end
           in if actualSize < sz
              then (if sz > maxArrayLength then Inl RangeError
                    else Inr (dat @ zeros (sz - length dat)))
              else Inr dat)
      | _ \<Rightarrow> Inr [])"

definition op_CODECOPY :: "ExecutionContext \<Rightarrow> unit vmres" where
  "op_CODECOPY =
     thenV (useGas 3) (bindV pop (\<lambda>destOffset. bindV pop (\<lambda>offset. bindV pop (\<lambda>len ctx.
       bindV (liftE (codeCopyData (toNumber offset) (toNumber len) (ctx_code ctx)))
         (writeMemory (toNumber destOffset)) ctx))))"

definition op_POP :: "ExecutionContext \<Rightarrow> unit vmres" where
  "op_POP = thenV (useGas 2) (bindV pop (\<lambda>_. returnV ()))"

definition op_MLOAD :: "ExecutionContext \<Rightarrow> unit vmres" where
  "op_MLOAD =
     thenV (useGas 3) (bindV pop (\<lambda>offset. bindV (readMemory (toNumber offset) (Some 32))
       (\<lambda>dat. pushBig (bytesToBigint (padBytes dat 32)))))"

definition op_MSTORE :: "ExecutionContext \<Rightarrow> unit vmres" where
  "op_MSTORE =
     thenV (useGas 3) (bindV pop (\<lambda>offset. bindV pop (\<lambda>v.
       writeMemoryWord (toNumber offset) v)))"

definition lowByte :: "jsval \<Rightarrow> error + bytes" where
  "lowByte v = bind_err (js_and v (Big 255))
                 (\<lambda>r. case r of Big n \<Rightarrow> Inr [word_of_int n] | _ \<Rightarrow> Inr [0])"

definition op_MSTORE8 :: "ExecutionContext \<Rightarrow> unit vmres" where
  "op_MSTORE8 =
     thenV (useGas 3) (bindV pop (\<lambda>offset. bindV pop (\<lambda>v.
       bindV (liftE (lowByte v)) (writeMemory (toNumber offset)))))"

definition op_SLOAD :: "ExecutionContext \<Rightarrow> unit vmres" where
  "op_SLOAD =
     thenV (useGas 50) (bindV pop (\<lambda>key ctx.
       bindV (liftE (getStorage (world ctx) (env_address (env ctx)) key)) push ctx))"

definition storeWorld :: "jsval \<Rightarrow> jsval \<Rightarrow> ExecutionContext \<Rightarrow> unit vmres" where
  "storeWorld key v ctx =
     (case setStorage (env_address (env ctx)) key v (world ctx) of
        Inl e \<Rightarrow> throwV e ctx
      | Inr w' \<Rightarrow> returnV () (ctx\<lparr>world := w'\<rparr>))"

definition op_SSTORE :: "ExecutionContext \<Rightarrow> unit vmres" where
  "op_SSTORE = thenV (useGas 20000) (bindV pop (\<lambda>key. bindV pop (\<lambda>v. storeWorld key v)))"

definition op_JUMP :: "ExecutionContext \<Rightarrow> unit vmres" where
  "op_JUMP = thenV (useGas 8) (bindV pop (\<lambda>destination. jump (toNumber destination)))"

definition op_JUMPI :: "ExecutionContext \<Rightarrow> unit vmres" where
  "op_JUMPI =
     thenV (useGas 10) (bindV pop (\<lambda>destination. bindV pop (\<lambda>condition ctx.
       if \<not> js_seq condition (Big 0) then jump (toNumber destination) ctx
       else returnV () (ctx\<lparr>pc := pc ctx + 1\<rparr>))))"

definition op_PC :: "ExecutionContext \<Rightarrow> unit vmres" where
  "op_PC = thenV (useGas 2) (\<lambda>ctx. push (Big (int (pc ctx))) ctx)"

definition op_MSIZE :: "ExecutionContext \<Rightarrow> unit vmres" where
  "op_MSIZE = thenV (useGas 2) (\<lambda>ctx. push (Big (int (length (memory ctx)))) ctx)"

definition op_GAS :: "ExecutionContext \<Rightarrow> unit vmres" where
  "op_GAS = thenV (useGas 2) (\<lambda>ctx. push (Big (gasLeft ctx)) ctx)"

definition op_JUMPDEST :: "ExecutionContext \<Rightarrow> unit vmres" where
  "op_JUMPDEST = thenV (useGas 1) (returnV ())"

definition op_PUSH0 :: "ExecutionContext \<Rightarrow> unit vmres" where
  "op_PUSH0 = thenV (useGas 2) (push (Big 0))"

definition op_PUSH :: "ExecutionContext \<Rightarrow> unit vmres" where
  "op_PUSH =
     thenV (useGas 3) (bindV readPushData (\<lambda>dat. pushBig (bytesToBigint (padBytes dat 32))))"

definition op_DUP :: "nat \<Rightarrow> ExecutionContext \<Rightarrow> unit vmres" where
  "op_DUP i = thenV (useGas 3) (dup i)"

definition op_SWAP :: "nat \<Rightarrow> ExecutionContext \<Rightarrow> unit vmres" where
  "op_SWAP i = thenV (useGas 3) (swap i)"

definition op_RETURN :: "ExecutionContext \<Rightarrow> unit vmres" where
  "op_RETURN =
     thenV (useGas 0) (bindV pop (\<lambda>offset. bindV pop (\<lambda>len.
       bindV (readMemory (toNumber offset) (toNumber len)) stop)))"

definition op_REVERT :: "ExecutionContext \<Rightarrow> unit vmres" where
  "op_REVERT =
     thenV (useGas 0) (bindV pop (\<lambda>offset. bindV pop (\<lambda>len.
       bindV (readMemory (toNumber offset) (toNumber len)) revertCtx)))"

text \<open>The handler map \<open>createOpcodeHandlers\<close> builds; every other opcode has no handler.\<close>

definition opcodeHandlers :: "nat \<Rightarrow> (ExecutionContext \<Rightarrow> unit vmres) option" where
  "opcodeHandlers opcode =
     (if opcode = 0x00 then Some op_STOP
      else if opcode = 0x01 then Some op_ADD
      else if opcode = 0x02 then Some op_MUL
      else if opcode = 0x03 then Some op_SUB
      else if opcode = 0x04 then Some op_DIV
      else if opcode = 0x06 then Some op_MOD
      else if opcode = 0x0a then Some op_EXP
      else if opcode = 0x10 then Some op_LT
      else if opcode = 0x11 then Some op_GT
      else if opcode = 0x14 then Some op_EQ
      else if opcode = 0x15 then Some op_ISZERO
      else if opcode = 0x16 then Some op_AND
      else if opcode = 0x17 then Some op_OR
      else if opcode = 0x18 then Some op_XOR
      else if opcode = 0x19 then Some op_NOT
      else if opcode = 0x1b then Some op_SHL
      else if opcode = 0x1c then Some op_SHR
      else if opcode = 0x1d then Some op_SAR
      else if opcode = 0x30 then Some op_ADDRESS
      else if opcode = 0x33 then Some op_CALLER
      else if opcode = 0x34 then Some op_CALLVALUE
      else if opcode = 0x35 then Some op_CALLDATALOAD
      else if opcode = 0x36 then Some op_CALLDATASIZE
      else if opcode = 0x37 then Some op_CALLDATACOPY
      else if opcode = 0x38 then Some op_CODESIZE
      else if opcode = 0x39 then Some op_CODECOPY
      else if opcode = 0x50 then Some op_POP
      else if opcode = 0x51 then Some op_MLOAD
      else if opcode = 0x52 then Some op_MSTORE
      else if opcode = 0x53 then Some op_MSTORE8
      else if opcode = 0x54 then Some op_SLOAD
      else if opcode = 0x55 then Some op_SSTORE
      else if opcode = 0x56 then Some op_JUMP
      else if opcode = 0x57 then Some op_JUMPI
      else if opcode = 0x58 then Some op_PC
      else if opcode = 0x59 then Some op_MSIZE
      else if opcode = 0x5a then Some op_GAS
      else if opcode = 0x5b then Some op_JUMPDEST
      else if opcode = 0x5f then Some op_PUSH0
      else if 0x60 \<le> opcode \<and> opcode \<le> 0x7f then Some op_PUSH
      else if 0x80 \<le> opcode \<and> opcode \<le> 0x8f then Some (op_DUP (opcode - 0x80))
      else if 0x90 \<le> opcode \<and> opcode \<le> 0x9f then Some (op_SWAP (opcode - 0x90))
      else if opcode = 0xf3 then Some op_RETURN
      else if opcode = 0xfd then Some op_REVERT
      else None)"

section \<open>Virtual machine: execution loop (\<open>evm/core.ts\<close>)\<close>

subsection \<open>Gas accounting of the handlers\<close>

text \<open>
  The loop of \<open>Evm.execute\<close> ends because every handler either charges at least one unit
  of gas, which \<open>useGas\<close> never lets fall below zero, or stops the context. \<open>keepsGas\<close> says
  that a method leaves \<open>gasLeft\<close> alone, \<open>endsRun\<close> that it stops the context, \<open>gasStep\<close> that a
  handler that returns without stopping has lowered \<open>gasLeft\<close> and kept it non-negative.
\<close>

definition keepsGas :: "(ExecutionContext \<Rightarrow> 'a vmres) \<Rightarrow> bool" where
  "keepsGas m = (\<forall>ctx. gasLeft (snd (m ctx)) = gasLeft ctx)"

definition endsRun :: "(ExecutionContext \<Rightarrow> unit vmres) \<Rightarrow> bool" where
  "endsRun m = (\<forall>ctx ctx'. m ctx = (Inr (), ctx') \<longrightarrow> stopped ctx')"

definition gasStep :: "(ExecutionContext \<Rightarrow> unit vmres) \<Rightarrow> bool" where
  "gasStep h = (\<forall>ctx ctx'. h ctx = (Inr (), ctx') \<longrightarrow> \<not> stopped ctx' \<longrightarrow>
                  0 \<le> gasLeft ctx' \<and> gasLeft ctx' < gasLeft ctx)"

lemma keepsGas_bindV:
  assumes "keepsGas m" "\<And>x. keepsGas (f x)"
  shows "keepsGas (bindV m f)"
  unfolding keepsGas_def
proof
  fix ctx
  obtain r c' where mc: "m ctx = (r, c')" by (cases "m ctx")
  have g: "gasLeft c' = gasLeft ctx" using assms(1) mc unfolding keepsGas_def by (metis snd_conv)
  show "gasLeft (snd (bindV m f ctx)) = gasLeft ctx"
  proof (cases r)
    case (Inl e)
    then show ?thesis using mc g by (simp add: bindV_def)
  next
    case (Inr x)
    have "gasLeft (snd (f x c')) = gasLeft c'" using assms(2) [of x] unfolding keepsGas_def by blast
    then show ?thesis using mc g Inr by (simp add: bindV_def)
  qed
qed

lemma keepsGas_thenV: "keepsGas m \<Longrightarrow> keepsGas k \<Longrightarrow> keepsGas (thenV m k)"
  unfolding thenV_def by (rule keepsGas_bindV)

lemma keepsGas_prims:
  "keepsGas (returnV x)" "keepsGas (throwV e)" "keepsGas (liftE r)"
  "keepsGas pop" "keepsGas (push v)" "keepsGas (swap i)" "keepsGas (dup i)"
  "keepsGas (expandMemory n)" "keepsGas (jump d)" "keepsGas (stop rd)" "keepsGas (revertCtx rd)"
  "keepsGas (readBytes n)" "keepsGas readPushData" "keepsGas (storeWorld k v)"
  by (simp_all add: keepsGas_def returnV_def throwV_def liftE_def pop_def push_def swap_def dup_def
        expandMemory_def jump_def stop_def revertCtx_def readBytes_def readPushData_def
        storeWorld_def Let_def split: list.splits option.splits sum.splits)

lemma keepsGas_memory:
  "keepsGas (readMemory off len)" "keepsGas (writeMemory off dat)"
  "keepsGas (writeMemoryWord off v)" "keepsGas (pushBig r)"
proof -
  show "keepsGas (readMemory off len)"
    unfolding keepsGas_def readMemory_def
    by (simp add: bindV_def returnV_def throwV_def expandMemory_def split: option.splits)
  show w: "\<And>dat. keepsGas (writeMemory off dat)"
    unfolding keepsGas_def writeMemory_def
    by (simp add: bindV_def returnV_def throwV_def expandMemory_def split: option.splits)
  show "keepsGas (writeMemoryWord off v)"
    unfolding writeMemoryWord_def [abs_def]
    by (intro keepsGas_bindV keepsGas_prims w)
  show "keepsGas (pushBig r)"
    unfolding pushBig_def by (intro keepsGas_bindV keepsGas_prims)
qed

lemma keepsGas_self:
  "(\<And>c. keepsGas (f c)) \<Longrightarrow> keepsGas (\<lambda>ctx. f ctx ctx)"
  by (simp add: keepsGas_def)

lemma gasStep_charged:
  assumes "1 \<le> c" "keepsGas body"
  shows "gasStep (thenV (useGas c) body)"
  unfolding gasStep_def
proof (intro allI impI)
  fix ctx ctx'
  assume r: "thenV (useGas c) body ctx = (Inr (), ctx')"
  have ok: "\<not> c < 0" "\<not> gasLeft ctx < c"
    using r assms(1) by (auto simp: thenV_def bindV_def useGas_def throwV_def split: if_splits)
  then have "body (ctx\<lparr>gasLeft := gasLeft ctx - c\<rparr>) = (Inr (), ctx')"
    using r by (simp add: thenV_def bindV_def useGas_def returnV_def)
  then have "gasLeft ctx' = gasLeft ctx - c"
    using assms(2) unfolding keepsGas_def by (metis snd_conv select_convs(6) surjective update_convs(6))
  then show "0 \<le> gasLeft ctx' \<and> gasLeft ctx' < gasLeft ctx" using ok assms(1) by simp
qed

lemma gasStep_ends:
  assumes "endsRun body"
  shows "gasStep (thenV (useGas c) body)"
  using assms
  by (auto simp: gasStep_def thenV_def bindV_def useGas_def endsRun_def returnV_def throwV_def
        split: if_splits)

lemma endsRun_bindV: "(\<And>x. endsRun (f x)) \<Longrightarrow> endsRun (bindV m f)"
  by (auto simp: endsRun_def bindV_def split: prod.splits sum.splits)

lemma endsRun_prims: "endsRun (stop rd)" "endsRun (revertCtx rd)"
  by (auto simp: endsRun_def stop_def revertCtx_def returnV_def)

lemma gas_simps:
  "gasLeft (snd (push v c)) = gasLeft c" "gasLeft (snd (pushBig r c)) = gasLeft c"
  "gasLeft (snd (writeMemory off d c)) = gasLeft c" "gasLeft (snd (jump dest c)) = gasLeft c"
  "gasLeft (snd (returnV x c)) = gasLeft c"
  using keepsGas_prims(5) [of v] keepsGas_memory(4) [of r] keepsGas_memory(2) [of off d]
    keepsGas_prims(9) [of dest] keepsGas_prims(1) [of x]
  by (simp_all add: keepsGas_def)

lemma gas_bind_lift:
  "(\<And>x c. gasLeft (snd (k x c)) = gasLeft c) \<Longrightarrow> gasLeft (snd (bindV (liftE r) k c)) = gasLeft c"
  by (cases r) (simp_all add: bindV_def liftE_def)

lemmas keepsGas_intros = keepsGas_bindV keepsGas_thenV keepsGas_prims keepsGas_memory

lemma gasStep_binaryOp: "1 \<le> c \<Longrightarrow> gasStep (binaryOp c f)"
  unfolding binaryOp_def by (rule gasStep_charged, assumption) (intro keepsGas_intros)

lemma gasStep_unaryOp: "1 \<le> c \<Longrightarrow> gasStep (unaryOp c f)"
  unfolding unaryOp_def by (rule gasStep_charged, assumption) (intro keepsGas_intros)

lemma handlers_arith:
  "gasStep op_ADD" "gasStep op_MUL" "gasStep op_SUB" "gasStep op_DIV" "gasStep op_MOD"
  "gasStep op_EXP" "gasStep op_LT" "gasStep op_GT" "gasStep op_EQ" "gasStep op_ISZERO"
  "gasStep op_AND" "gasStep op_OR" "gasStep op_XOR" "gasStep op_NOT" "gasStep op_SHL"
  "gasStep op_SHR" "gasStep op_SAR"
  unfolding op_ADD_def op_MUL_def op_SUB_def op_DIV_def op_MOD_def op_EXP_def
    op_LT_def op_GT_def op_EQ_def op_ISZERO_def op_AND_def op_OR_def op_XOR_def op_NOT_def
    op_SHL_def op_SHR_def op_SAR_def
  by (simp_all add: gasStep_binaryOp gasStep_unaryOp)

lemma handlers_plain:
  "gasStep op_POP" "gasStep op_MLOAD" "gasStep op_MSTORE" "gasStep op_MSTORE8"
  "gasStep op_SSTORE" "gasStep op_JUMP" "gasStep op_JUMPDEST" "gasStep op_PUSH0"
  "gasStep op_PUSH" "gasStep (op_DUP i)" "gasStep (op_SWAP i)"
  unfolding op_POP_def op_MLOAD_def op_MSTORE_def op_MSTORE8_def op_SSTORE_def op_JUMP_def
    op_JUMPDEST_def op_PUSH0_def op_PUSH_def op_DUP_def op_SWAP_def
  by (rule gasStep_charged, simp, intro keepsGas_intros)+

lemma handlers_env:
  "gasStep op_ADDRESS" "gasStep op_CALLER" "gasStep op_CALLVALUE" "gasStep op_CALLDATASIZE"
  "gasStep op_CODESIZE" "gasStep op_PC" "gasStep op_MSIZE" "gasStep op_GAS"
  unfolding op_ADDRESS_def op_CALLER_def op_CALLVALUE_def op_CALLDATASIZE_def op_CODESIZE_def
    op_PC_def op_MSIZE_def op_GAS_def
  by (rule gasStep_charged, simp, simp add: keepsGas_def gas_simps)+

lemma handlers_copy:
  "gasStep op_CALLDATALOAD" "gasStep op_CALLDATACOPY" "gasStep op_CODECOPY" "gasStep op_SLOAD"
  "gasStep op_JUMPI"
proof -
  have a: "\<And>v. keepsGas (\<lambda>ctx. let dat = readCalldata (toNumber v) (Some 32) ctx;
                                   padded = dat @ zeros (32 - length dat)
                               in pushBig (bytesToBigint padded) ctx)"
    by (simp add: keepsGas_def gas_simps Let_def)
  show "gasStep op_CALLDATALOAD"
    unfolding op_CALLDATALOAD_def
    by (rule gasStep_charged, simp, intro keepsGas_intros a)
  have b: "\<And>d off len. keepsGas (\<lambda>ctx. writeMemory (toNumber d)
                                      (readCalldata (toNumber off) (toNumber len) ctx) ctx)"
    by (simp add: keepsGas_def gas_simps)
  show "gasStep op_CALLDATACOPY"
    unfolding op_CALLDATACOPY_def
    by (rule gasStep_charged, simp, intro keepsGas_intros b)
  have c: "\<And>d off len. keepsGas (\<lambda>ctx. bindV (liftE (codeCopyData (toNumber off) (toNumber len)
                                      (ctx_code ctx))) (writeMemory (toNumber d)) ctx)"
    by (simp add: keepsGas_def gas_bind_lift gas_simps)
  show "gasStep op_CODECOPY"
    unfolding op_CODECOPY_def
    by (rule gasStep_charged, simp, intro keepsGas_intros c)
  have d: "\<And>key. keepsGas (\<lambda>ctx. bindV (liftE (getStorage (world ctx) (env_address (env ctx)) key))
                                  push ctx)"
    by (simp add: keepsGas_def gas_bind_lift gas_simps)
  show "gasStep op_SLOAD"
    unfolding op_SLOAD_def
    by (rule gasStep_charged, simp, intro keepsGas_intros d)
  have e: "\<And>dest cond. keepsGas (\<lambda>ctx. if \<not> js_seq cond (Big 0) then jump (toNumber dest) ctx
                                       else returnV () (ctx\<lparr>pc := pc ctx + 1\<rparr>))"
    by (simp add: keepsGas_def gas_simps)
  show "gasStep op_JUMPI"
    unfolding op_JUMPI_def
    by (rule gasStep_charged, simp, intro keepsGas_intros e)
qed

lemma handlers_ending: "gasStep op_STOP" "gasStep op_RETURN" "gasStep op_REVERT"
  unfolding op_STOP_def op_RETURN_def op_REVERT_def
  by (rule gasStep_ends, intro endsRun_bindV endsRun_prims)+

lemma opcodeHandlers_gasStep:
  assumes "opcodeHandlers opcode = Some h"
  shows "gasStep h"
  using assms unfolding opcodeHandlers_def
  by (auto split: if_splits
        simp: handlers_arith handlers_plain handlers_env handlers_copy handlers_ending)

subsection \<open>\<open>Evm.execute\<close>\<close>

record ExecutionResult =
  ex_success :: bool
  ex_gasUsed :: int
  ex_returnData :: bytes

text \<open>
  The \<open>while\<close> loop of \<open>execute\<close>: the result is the exception that left the loop (if any)
  and the context. An opcode without a handler reverts the context and leaves the loop;
  after a handler the program counter is incremented unless the opcode is \<open>JUMP\<close>, \<open>JUMPI\<close>
  or a \<open>PUSH1\<close>..\<open>PUSH32\<close>, or the context has stopped.
\<close>

function runLoop :: "ExecutionContext \<Rightarrow> error option \<times> ExecutionContext" where
  "runLoop ctx =
     (if \<not> stopped ctx \<and> pc ctx < length (ctx_code ctx) then
        (let opcode = getCurrentOpcode ctx
         in case opcodeHandlers opcode of
              None \<Rightarrow> (None, snd (revertCtx [] ctx))
            | Some handler \<Rightarrow>
                (case handler ctx of
                   (Inl e, ctx') \<Rightarrow> (Some e, ctx')
                 | (Inr u, ctx') \<Rightarrow>
                     (let isPush = (opcode \<ge> 0x60 \<and> opcode \<le> 0x7f)
                      in runLoop (if opcode \<noteq> 0x56 \<and> opcode \<noteq> 0x57 \<and> \<not> isPush
                                     \<and> \<not> stopped ctx'
                                  then ctx'\<lparr>pc := pc ctx' + 1\<rparr> else ctx'))))
      else (None, ctx))"
  by pat_completeness auto
termination
  apply (relation "measure (\<lambda>ctx. if stopped ctx then 0 else nat (gasLeft ctx) + 1)")
   apply simp
  subgoal premises p for ctx x x2 xa y b xaa
  proof -
    have hc: "x2 ctx = (Inr (), y)" using p(4) [symmetric] p(5) by simp
    have gs: "gasStep x2" using opcodeHandlers_gasStep [OF p(3)] .
    show ?thesis
    proof (cases "stopped y")
      case True
      then show ?thesis using p(1) by simp
    next
      case False
      then have "0 \<le> gasLeft y \<and> gasLeft y < gasLeft ctx"
        using gs hc unfolding gasStep_def by blast
      then show ?thesis using p(1) False by simp
    qed
  qed
  done

text \<open>
  \<open>execute\<close>: the result object and the world, which the context shares with the caller;
  what a handler wrote before an exception stays written.
\<close>

definition execute :: "bytes \<Rightarrow> World \<Rightarrow> Env \<Rightarrow> int \<Rightarrow> bytes \<Rightarrow> ExecutionResult \<times> World" where
  "execute c w e gasLim cd =
     (let (err, ctx) = runLoop (newContext c w e gasLim cd);
          gasUsed = gasLim - gasLeft ctx
      in (case err of
            None \<Rightarrow> \<lparr>ex_success = \<not> reverted ctx, ex_gasUsed = gasUsed,
                      ex_returnData = returnData ctx\<rparr>
          | Some e \<Rightarrow> \<lparr>ex_success = False, ex_gasUsed = gasUsed, ex_returnData = []\<rparr>,
          world ctx))"

subsection \<open>Concrete contexts\<close>

definition env0 :: Env where
  "env0 = \<lparr>env_address = bob, env_caller = alice, env_origin = alice, env_value = 0,
            env_gasPrice = 1,
            env_block = \<lparr>be_number = 1, be_timestamp = 1700000000, be_coinbase = validator0,
                         be_gasLimit = 30000000\<rparr>,
            env_chainId = 1\<rparr>"

text \<open>A context with the shift 300 on top of the word \<open>2^255\<close>.\<close>

definition arithContext :: ExecutionContext where
  "arithContext = (newContext [] emptyWorld env0 100 [])\<lparr>stack := [Big 300, Big (2 ^ 255)]\<rparr>"

section \<open>Properties\<close>

subsection \<open>Fork choice\<close>



subsection \<open>World state: snapshots\<close>

lemma set_map_set: "set (map_set k v m) \<subseteq> insert (k, v) (set m)"
  by (induction m) auto

lemma snd_set_map_set: "snd ` set (map_set k v m) \<subseteq> insert v (snd ` set m)"
  using set_map_set [of k v m] by force

lemma map_of_map_set: "map_of (map_set k v m) = (map_of m)(k \<mapsto> v)"
  by (induction m) (auto simp: fun_eq_iff)

lemma map_heap_upd:
  "list_all (\<lambda>p. snd p \<noteq> r) m \<Longrightarrow> map (\<lambda>p. (h[r := x]) ! snd p) m = map (\<lambda>p. h ! snd p) m"
  by (induction m) auto

lemma map_heap_app:
  "refsBelow (length h) m \<Longrightarrow> map (\<lambda>p. (h @ xs) ! snd p) m = map (\<lambda>p. h ! snd p) m"
  by (induction m) (auto simp: refsBelow_def nth_append)

lemma refsBelow_mono: "refsBelow n m \<Longrightarrow> n \<le> n' \<Longrightarrow> refsBelow n' m"
  by (induction m) (auto simp: refsBelow_def)

lemma isolated_upd: "isolated sm lm h \<Longrightarrow> isolated sm lm (h[r := x])"
  by (simp add: isolated_def)

lemma isolated_app_set:
  assumes "isolated sm lm h"
  shows "isolated sm (map_set k (length h) lm) (h @ [x])"
proof -
  have a: "refsBelow (length h) sm" and b: "list_all (\<lambda>p. snd p \<notin> snd ` set lm) sm"
    using assms by (auto simp: isolated_def)
  have "list_all (\<lambda>p. snd p \<notin> snd ` set (map_set k (length h) lm)) sm"
    unfolding list_all_iff
  proof
    fix p assume p: "p \<in> set sm"
    then have "snd p < length h" using a by (auto simp: refsBelow_def list_all_iff)
    moreover have "snd p \<notin> snd ` set lm" using b p by (auto simp: list_all_iff)
    ultimately show "snd p \<notin> snd ` set (map_set k (length h) lm)"
      using snd_set_map_set [of k "length h" lm] by auto
  qed
  moreover have "refsBelow (length (h @ [x])) sm"
    using a by (auto intro: refsBelow_mono)
  ultimately show ?thesis by (simp add: isolated_def)
qed

lemma isolated_live_ref:
  "isolated sm lm h \<Longrightarrow> map_of lm k = Some r \<Longrightarrow> list_all (\<lambda>p. snd p \<noteq> r) sm"
  by (auto simp: isolated_def list_all_iff dest!: map_of_SomeD) (metis imageI snd_conv)

lemma isolated_app: "isolated sm lm h \<Longrightarrow> isolated sm lm (h @ xs)"
  by (auto simp: isolated_def intro: refsBelow_mono)

lemma frozen_putAccount:
  assumes "frozen i snap av sv w"
  shows "frozen i snap av sv (putAccount a w)"
proof -
  have "isolated (snap_accounts snap) (accounts w) (acc_heap w)"
    using assms by (simp add: frozen_def)
  then have "isolated (snap_accounts snap)
      (map_set (addressToKey (address a)) (length (acc_heap w)) (accounts w)) (acc_heap w @ [a])"
    and "refsBelow (length (acc_heap w)) (snap_accounts snap)"
    by (rule isolated_app_set, simp add: isolated_def)
  then show ?thesis
    using assms by (simp add: frozen_def putAccount_def map_heap_app)
qed

lemma frozen_acc_upd:
  assumes "frozen i snap av sv w" "map_of (accounts w) k = Some r"
  shows "frozen i snap av sv (w\<lparr>acc_heap := (acc_heap w)[r := x]\<rparr>)"
  using assms isolated_live_ref [of "snap_accounts snap" "accounts w" "acc_heap w" k r]
  by (auto simp: frozen_def isolated_upd map_heap_upd)

lemma frozen_modifyAccount: "frozen i snap av sv w \<Longrightarrow> frozen i snap av sv (modifyAccount a f w)"
  by (auto simp: modifyAccount_def getAccount_def map_get_def Let_def
      intro!: frozen_putAccount frozen_acc_upd split: option.splits)

lemma frozen_stor_upd:
  assumes "frozen i snap av sv w" "map_of (storages w) k = Some r"
  shows "frozen i snap av sv (w\<lparr>stor_heap := (stor_heap w)[r := x]\<rparr>)"
  using assms isolated_live_ref [of "snap_storages snap" "storages w" "stor_heap w" k r]
  by (auto simp: frozen_def isolated_upd map_heap_upd)

lemma frozen_stor_alloc:
  assumes "frozen i snap av sv w"
  shows "frozen i snap av sv (w\<lparr>stor_heap := stor_heap w @ [x],
            storages := map_set k (length (stor_heap w)) (storages w)\<rparr>)"
proof -
  have "isolated (snap_storages snap) (storages w) (stor_heap w)"
    using assms by (simp add: frozen_def)
  then have "isolated (snap_storages snap)
      (map_set k (length (stor_heap w)) (storages w)) (stor_heap w @ [x])"
    and "refsBelow (length (stor_heap w)) (snap_storages snap)"
    by (rule isolated_app_set, simp add: isolated_def)
  then show ?thesis
    using assms by (simp add: frozen_def map_heap_app)
qed

lemma setStorage_shape:
  assumes "setStorage a k v w = Inr w'"
  shows "(\<exists>r x. map_of (storages w) (addressToKey a) = Some r
            \<and> w' = w\<lparr>stor_heap := (stor_heap w)[r := x]\<rparr>)
         \<or> (\<exists>x. w' = w\<lparr>stor_heap := stor_heap w @ [x],
                         storages := map_set (addressToKey a) (length (stor_heap w)) (storages w)\<rparr>)"
proof -
  obtain sk where sk: "storageKeyToString k = Inr sk"
    using assms by (cases "storageKeyToString k") (auto simp: setStorage_def bind_err_def)
  show ?thesis
  proof (cases "map_has (storages w) (addressToKey a)")
    case True
    then obtain r where r: "map_of (storages w) (addressToKey a) = Some r"
      by (auto simp: map_has_def)
    have "w' = w\<lparr>stor_heap := (stor_heap w)[r :=
                 (if v = Big 0 then map_delete sk (stor_heap w ! r)
                  else map_set sk v (stor_heap w ! r))]\<rparr>"
      using True r assms by (auto simp: setStorage_def bind_err_def sk Let_def map_get_def)
    then show ?thesis using r by blast
  next
    case False
    have "w' = w\<lparr>stor_heap := stor_heap w @
                 [if v = Big 0 then map_delete sk [] else map_set sk v []],
               storages := map_set (addressToKey a) (length (stor_heap w)) (storages w)\<rparr>"
      using False assms
      by (auto simp: setStorage_def bind_err_def sk Let_def map_get_def map_of_map_set)
    then show ?thesis by blast
  qed
qed

lemma frozen_setStorage:
  assumes "frozen i snap av sv w" "setStorage a k v w = Inr w'"
  shows "frozen i snap av sv w'"
  using setStorage_shape [OF assms(2)] frozen_stor_upd [OF assms(1)] frozen_stor_alloc [OF assms(1)]
  by auto

lemma frozen_applyMutation:
  "frozen i snap av sv w \<Longrightarrow> applyMutation m w = Inr w' \<Longrightarrow> frozen i snap av sv w'"
  by (cases m)
     (auto simp: addBalance_def subBalance_def incrementNonce_def setNonce_def setCode_def
        frozen_modifyAccount frozen_setStorage frozen_putAccount
        split: if_splits option.splits)

lemma frozen_applyMutations:
  "frozen i snap av sv w \<Longrightarrow> frozen i snap av sv (applyMutations ms w)"
proof (induction ms arbitrary: w)
  case Nil
  then show ?case by simp
next
  case (Cons m ms)
  then show ?case
    by (cases "applyMutation m w") (auto dest: frozen_applyMutation)
qed

lemma frozen_revert:
  assumes "frozen i snap av sv w"
  shows "\<exists>w'. revert i w = Inr w'
           \<and> accountsView w' = zip (map fst (snap_accounts snap)) av
           \<and> storagesView w' = zip (map fst (snap_storages snap)) sv"
  using assms
  by (auto simp: frozen_def revert_def accountsView_def storagesView_def zip_map_fst_snd
        zip_map_map map_idI intro!: nth_equalityI)

lemma copyRefs_heap:
  "map (\<lambda>p. fst (copyRefs h m) ! snd p) (snd (copyRefs h m)) = map (\<lambda>p. h ! snd p) m"
  by (rule nth_equalityI) (auto simp: copyRefs_def nth_append)

lemma copyRefs_keys: "map fst (snd (copyRefs h m)) = map fst m"
  by (simp add: copyRefs_def)

lemma copyRefs_isolated:
  assumes "refsBelow (length h) m"
  shows "isolated (snd (copyRefs h m)) m (fst (copyRefs h m))"
proof -
  have "\<And>p. p \<in> set (snd (copyRefs h m)) \<Longrightarrow>
          snd p < length h + length m \<and> length h \<le> snd p"
    by (auto simp: copyRefs_def dest!: set_zip_rightD)
  moreover have "\<And>q. q \<in> set m \<Longrightarrow> snd q < length h"
    using assms by (auto simp: refsBelow_def list_all_iff)
  ultimately show ?thesis
    by (fastforce simp: isolated_def refsBelow_def list_all_iff copyRefs_def)
qed

lemma frozen_snapshot:
  assumes "wellFormed w"
  shows "frozen (fst (snapshot w))
           \<lparr>snap_accounts = snd (copyRefs (acc_heap w) (accounts w)),
            snap_storages = snd (copyRefs (stor_heap w) (storages w)),
            snap_nextSnapshotId = nextSnapshotId w + 1\<rparr>
           (map (\<lambda>p. acc_heap w ! snd p) (accounts w))
           (map (\<lambda>p. stor_heap w ! snd p) (storages w))
           (snd (snapshot w))"
proof -
  have a: "refsBelow (length (acc_heap w)) (accounts w)"
    and b: "refsBelow (length (stor_heap w)) (storages w)"
    using assms by (auto simp: wellFormed_def)
  show ?thesis
    using copyRefs_isolated [OF a] copyRefs_isolated [OF b]
      copyRefs_heap [of "acc_heap w" "accounts w"] copyRefs_heap [of "stor_heap w" "storages w"]
    by (simp add: frozen_def snapshot_def Let_def split_beta map_get_def map_of_map_set)
qed

lemma zip_keys_view: "zip (map fst m) (map (\<lambda>p. h ! snd p) m) = map (\<lambda>p. (fst p, h ! snd p)) m"
  by (induction m) auto

lemma commit_only_snapshots: "(commit (Some i) w)\<lparr>snapshots := snapshots w\<rparr> = w"
  by (simp add: commit_def)

lemma commit_views:
  "accountsView (commit sid w) = accountsView w \<and> storagesView (commit sid w) = storagesView w"
  by (auto simp: commit_def accountsView_def storagesView_def split: option.splits)

lemma map_of_filter_key_None: "\<not> P j \<Longrightarrow> map_of (filter (\<lambda>p. P (fst p)) m) j = None"
  by (induction m) auto

text \<open>Every operation of the interface keeps a world well formed, starting from the empty one.\<close>

lemma refsBelow_map_set:
  "refsBelow n m \<Longrightarrow> r < n \<Longrightarrow> refsBelow n (map_set k r m)"
  by (induction m) (auto simp: refsBelow_def)

lemma wellFormed_grow_acc:
  "wellFormed w \<Longrightarrow> wellFormed (w\<lparr>acc_heap := acc_heap w @ [a],
       accounts := map_set k (length (acc_heap w)) (accounts w)\<rparr>)"
  by (auto simp: wellFormed_def list_all_iff intro!: refsBelow_map_set intro: refsBelow_mono)

lemma wellFormed_putAccount: "wellFormed w \<Longrightarrow> wellFormed (putAccount a w)"
  by (simp add: putAccount_def wellFormed_grow_acc)

lemma wellFormed_acc_upd: "wellFormed w \<Longrightarrow> wellFormed (w\<lparr>acc_heap := (acc_heap w)[r := x]\<rparr>)"
  by (simp add: wellFormed_def)

lemma wellFormed_modifyAccount: "wellFormed w \<Longrightarrow> wellFormed (modifyAccount a f w)"
  by (auto simp: modifyAccount_def Let_def wellFormed_putAccount wellFormed_acc_upd
      split: option.splits)

lemma wellFormed_stor_upd: "wellFormed w \<Longrightarrow> wellFormed (w\<lparr>stor_heap := (stor_heap w)[r := x]\<rparr>)"
  by (simp add: wellFormed_def)

lemma wellFormed_grow_stor:
  "wellFormed w \<Longrightarrow> wellFormed (w\<lparr>stor_heap := stor_heap w @ [x],
       storages := map_set k (length (stor_heap w)) (storages w)\<rparr>)"
  by (auto simp: wellFormed_def list_all_iff intro!: refsBelow_map_set intro: refsBelow_mono)

lemma wellFormed_setStorage:
  assumes "wellFormed w" "setStorage a k v w = Inr w'"
  shows "wellFormed w'"
  using setStorage_shape [OF assms(2)] wellFormed_stor_upd [OF assms(1)]
    wellFormed_grow_stor [OF assms(1)]
  by auto

lemma wellFormed_applyMutation:
  "wellFormed w \<Longrightarrow> applyMutation m w = Inr w' \<Longrightarrow> wellFormed w'"
  by (cases m)
     (auto simp: addBalance_def subBalance_def incrementNonce_def setNonce_def setCode_def
        wellFormed_modifyAccount wellFormed_setStorage wellFormed_putAccount
        split: if_splits option.splits)


lemma list_all_map_set:
  "list_all P m \<Longrightarrow> P (k, v) \<Longrightarrow> list_all P (map_set k v m)"
  by (induction m) auto



lemma wellFormed_commit: "wellFormed w \<Longrightarrow> wellFormed (commit sid w)"
  by (auto simp: wellFormed_def commit_def map_delete_def list_all_iff split: option.splits)

lemma wellFormed_emptyWorld: "wellFormed emptyWorld"
  by (simp add: wellFormed_def emptyWorld_def refsBelow_def)



text \<open>Evaluation of concrete worlds: the keys stay symbolic, only their distinctness is used.\<close>

lemma keys_distinct:
  "addressToKey alice \<noteq> addressToKey bob" "addressToKey bob \<noteq> addressToKey alice"
  "storageKeyToString (Big 1) = Inr (padStart 64 (CHR ''0'') ''1'')"
  "storageKeyToString (Big 2) = Inr (padStart 64 (CHR ''0'') ''2'')"
  "padStart 64 (CHR ''0'') ''1'' \<noteq> padStart 64 (CHR ''0'') ''2''"
  "padStart 64 (CHR ''0'') ''2'' \<noteq> padStart 64 (CHR ''0'') ''1''"
  by code_simp+

lemmas world_ops = putAccount_def setStorage_def modifyAccount_def addBalance_def subBalance_def
  incrementNonce_def setNonce_def setCode_def getAccount_def getBalance_def getNonce_def
  getCode_def getStorage_def accountExists_def map_get_def map_has_def map_delete_def
  newAccount_def emptyWorld_def snapshot_def copyRefs_def revert_def commit_def Let_def
  bind_err_def orZero_def

text \<open>
  C2. For every well-formed world \<open>w\<close> (every world the interface can produce is one) and
  every sequence \<open>ms\<close> of balance, nonce, code, storage and account writes:
  \<open>snapshot()\<close>, then \<open>ms\<close>, then \<open>revert(id)\<close> succeeds and leaves exactly the accounts and
  storage of \<open>w\<close> (same keys, same order, same contents); and \<open>snapshot()\<close>, then \<open>ms\<close>,
  then \<open>commit(id)\<close> leaves the accounts and storage as the mutations made them.
\<close>

theorem snapshot_revert_commit:
  assumes "wellFormed w"
  shows "(\<exists>w3. revert (fst (snapshot w)) (applyMutations ms (snd (snapshot w))) = Inr w3
            \<and> accountsView w3 = accountsView w \<and> storagesView w3 = storagesView w)
         \<and> accountsView (commit (Some (fst (snapshot w))) (applyMutations ms (snd (snapshot w))))
             = accountsView (applyMutations ms (snd (snapshot w)))
         \<and> storagesView (commit (Some (fst (snapshot w))) (applyMutations ms (snd (snapshot w))))
             = storagesView (applyMutations ms (snd (snapshot w)))"
proof -
  from frozen_revert [OF frozen_applyMutations [OF frozen_snapshot [OF assms]], of ms]
  have "\<exists>w3. revert (fst (snapshot w)) (applyMutations ms (snd (snapshot w))) = Inr w3
            \<and> accountsView w3 = accountsView w \<and> storagesView w3 = storagesView w"
    by (simp add: copyRefs_keys zip_keys_view accountsView_def storagesView_def)
  then show ?thesis by (simp add: commit_views)
qed

theorem snapshot_revert_commit_witness:
  "wellFormed world0
   \<and> getBalance world0 alice = 100
   \<and> getBalance (applyMutations mutations0 (snd (snapshot world0))) alice = 97
   \<and> getStorage (applyMutations mutations0 (snd (snapshot world0))) bob (Big 2) = Inr (Big 9)
   \<and> (\<exists>w3. revert (fst (snapshot world0)) (applyMutations mutations0 (snd (snapshot world0)))
              = Inr w3
            \<and> accountsView w3 = accountsView world0 \<and> storagesView w3 = storagesView world0)
   \<and> accountsView (commit (Some (fst (snapshot world0)))
                     (applyMutations mutations0 (snd (snapshot world0))))
       = accountsView (applyMutations mutations0 (snd (snapshot world0)))
   \<and> storagesView (commit (Some (fst (snapshot world0)))
                     (applyMutations mutations0 (snd (snapshot world0))))
       = storagesView (applyMutations mutations0 (snd (snapshot world0)))"
proof -
  have h: "wellFormed world0"
    by (simp add: world0_def wellFormed_def refsBelow_def world_ops keys_distinct)
  have v: "getBalance world0 alice = 100
    \<and> getBalance (applyMutations mutations0 (snd (snapshot world0))) alice = 97
    \<and> getStorage (applyMutations mutations0 (snd (snapshot world0))) bob (Big 2)
        = Inr (Big 9)"
    by (simp add: world0_def mutations0_def world_ops keys_distinct)
  show ?thesis
    using h v snapshot_revert_commit [OF h, of mutations0] by simp
qed

text \<open>
  C10. \<open>commit(id)\<close> with an explicit id changes nothing of the world but the snapshot
  table, so the observable accounts and storage stay as they are; and it removes every
  snapshot whose id is at least \<open>id\<close>: for every \<open>j \<ge> id\<close> no snapshot \<open>j\<close> is left, a
  following \<open>revert(j)\<close> throws "Snapshot j not found" and a following \<open>commit(j)\<close> finds
  nothing to remove.
\<close>

theorem commit_drops_inner_snapshots:
  assumes "i \<le> j"
  shows "(commit (Some i) w)\<lparr>snapshots := snapshots w\<rparr> = w
         \<and> accountsView (commit (Some i) w) = accountsView w
         \<and> storagesView (commit (Some i) w) = storagesView w
         \<and> map_get (snapshots (commit (Some i) w)) j = None
         \<and> revert j (commit (Some i) w) = Inl (SnapshotNotFound j)
         \<and> commit (Some j) (commit (Some i) w) = commit (Some i) w"
proof -
  have n: "map_of (filter (\<lambda>p. \<not> i \<le> fst p) (snapshots w)) j = None"
    using assms map_of_filter_key_None [of "\<lambda>k. \<not> i \<le> k" j "snapshots w"] by simp
  have f: "filter (\<lambda>p. \<not> j \<le> fst p) (filter (\<lambda>p. \<not> i \<le> fst p) (snapshots w))
           = filter (\<lambda>p. \<not> i \<le> fst p) (snapshots w)"
    using assms by (auto intro!: filter_cong)
  show ?thesis
    using n f by (simp add: commit_def revert_def map_get_def accountsView_def storagesView_def)
qed

theorem commit_drops_inner_snapshots_witness:
  "(1::nat) \<le> 2
   \<and> map_get (snapshots twoSnapshots) 2 \<noteq> None
   \<and> (commit (Some 1) twoSnapshots)\<lparr>snapshots := snapshots twoSnapshots\<rparr> = twoSnapshots
   \<and> accountsView (commit (Some 1) twoSnapshots) = accountsView twoSnapshots
   \<and> storagesView (commit (Some 1) twoSnapshots) = storagesView twoSnapshots
   \<and> map_get (snapshots (commit (Some 1) twoSnapshots)) 2 = None
   \<and> revert 2 (commit (Some 1) twoSnapshots) = Inl (SnapshotNotFound 2)
   \<and> commit (Some 2) (commit (Some 1) twoSnapshots) = commit (Some 1) twoSnapshots"
proof -
  have h: "(1::nat) \<le> 2" by simp
  have s: "map_get (snapshots twoSnapshots) 2 \<noteq> None"
    by (simp add: twoSnapshots_def snapshot_def emptyWorld_def copyRefs_def map_get_def)
  show ?thesis
    using h s commit_drops_inner_snapshots [OF h, of twoSnapshots] by simp
qed

subsection \<open>Block header round trip\<close>

lemma slice_beyond: "length xs \<le> a \<Longrightarrow> slice xs a b = []"
  by (simp add: slice_def)

lemma slice_length_le: "length (slice xs a b) \<le> b - a"
  by (simp add: slice_def)

lemma byte_prefix_len: "unat (d0 :: byte) - 0xc0 \<le> 63"
proof -
  have "unat d0 < 2 ^ LENGTH(8)" by (rule unsigned_less)
  then show ?thesis by simp
qed

lemma cutFields_length: "length (fst (cutFields ld off szs)) = length szs"
  by (induction szs arbitrary: off) (auto simp: split_beta)

lemma decodeRLPList_fields:
  assumes "decodeRLPList data = Inr flds"
  shows "length flds = 10 \<and> flds ! 2 = []"
proof -
  obtain d0 rest where d: "data = d0 # rest" "d0 \<ge> 0xc0"
    using assms by (auto simp: decodeRLPList_def split: list.splits if_splits)
  let ?ld = "slice data 1 (1 + (unat d0 - 0xc0))"
  have len: "length ?ld \<le> 63"
    using slice_length_le [of data 1 "1 + (unat d0 - 0xc0)"] byte_prefix_len [of d0] by simp
  have f: "flds = fst (cutFields ?ld 0 (butlast fieldSizes))
                    @ [slice ?ld (snd (cutFields ?ld 0 (butlast fieldSizes))) (length ?ld)]"
    using assms d by (simp add: decodeRLPList_def Let_def split_beta)
  have l: "length flds = 10"
    unfolding f by (simp add: cutFields_length fieldSizes_def)
  have "flds ! 2 = slice ?ld 64 96"
    unfolding f by (simp add: fieldSizes_def Let_def split_beta)
  then show ?thesis using l len by (simp add: slice_beyond)
qed

text \<open>
  C8 (the code fails the claim). \<open>deserializeBlockHeader\<close> returns a header for no input
  at all: the payload \<open>decodeRLPList\<close> cuts is at most 63 bytes long, so the third field
  (the timestamp) is always empty and \<open>bytesToBigint\<close> throws on it, when no earlier step
  has thrown. In particular decoding the serialization of any header throws.
\<close>

theorem deserializeBlockHeader_always_throws:
  "deserializeBlockHeader data = Inl ExpectedRLPList
   \<or> deserializeBlockHeader data = Inl SyntaxError"
proof (cases "decodeRLPList data")
  case (Inl e)
  then have "e = ExpectedRLPList"
    by (auto simp: decodeRLPList_def Let_def split_beta split: list.splits if_splits)
  then show ?thesis using Inl by (simp add: deserializeBlockHeader_def bind_err_def)
next
  case (Inr flds)
  from decodeRLPList_fields [OF Inr]
  have l: "length flds = 10" and e: "flds ! 2 = []" by auto
  have t: "bytesToBigintJs (js_nth flds 2) = Inl SyntaxError"
    using l e by (simp add: js_nth_def bytesToBigintJs_def bytesToBigint_def)
  have n: "bytesToBigintJs (js_nth flds 1) = Inl SyntaxError
           \<or> (\<exists>v. bytesToBigintJs (js_nth flds 1) = Inr v)"
    using l by (auto simp: js_nth_def bytesToBigintJs_def bytesToBigint_def)
  then show ?thesis
    using Inr t by (auto simp: deserializeBlockHeader_def bind_err_def)
qed

text \<open>The round trip of a signed header of block 1 ends in the \<open>SyntaxError\<close>.\<close>

lemma header1_round_trip_throws:
  "bind_err (serializeBlockHeader header1) deserializeBlockHeader = Inl SyntaxError"
  by code_simp

subsection \<open>Transaction pool\<close>

text \<open>
  No entry the pool holds for a sender has the nonce \<open>getCurrentNonce\<close> answers for that
  sender (the highest held nonce plus one), so \<open>promoteQueuedTransactions\<close> finds nothing
  to promote, in any pool.
\<close>

lemma maxNonce_bounds:
  "m \<le> foldl (\<lambda>maxNonce tx. if pt_nonce tx > maxNonce then pt_nonce tx else maxNonce) m xs
   \<and> (\<forall>tx \<in> set xs. pt_nonce tx
          \<le> foldl (\<lambda>maxNonce tx. if pt_nonce tx > maxNonce then pt_nonce tx else maxNonce) m xs)"
proof (induction xs arbitrary: m)
  case Nil
  then show ?case by simp
next
  case (Cons x xs)
  show ?case
    using Cons.IH [of "if pt_nonce x > m then pt_nonce x else m"]
    by (auto split: if_splits)
qed

lemma held_nonce_below_current:
  assumes "tx \<in> set (accountTxsOf pool (bytesToHex sender))"
  shows "pt_nonce tx < getCurrentNonce pool sender"
proof -
  have "accountTxsOf pool (bytesToHex sender) \<noteq> []" using assms by auto
  then show ?thesis
    using assms maxNonce_bounds [of 0 "accountTxsOf pool (bytesToHex sender)"]
    by (auto simp: getCurrentNonce_def Let_def)
qed

lemma promoteQueuedTransactions_identity: "promoteQueuedTransactions sender pool = pool"
proof -
  have "filter (\<lambda>tx. map_has (queued pool) (pt_hash tx) \<and> pt_nonce tx = getCurrentNonce pool sender)
          (accountTxsOf pool (bytesToHex sender)) = []"
    using held_nonce_below_current [of _ pool sender] by (fastforce simp: filter_empty_conv)
  then show ?thesis by (simp add: promoteQueuedTransactions_def Let_def)
qed

text \<open>
  The placement step follows the nonce as compared with \<open>getCurrentNonce\<close>: equal goes to
  pending, greater to queued, smaller is refused.
\<close>

lemma placeByNonce_cases:
  "(pt_nonce poolTx = getCurrentNonce pool (pt_sender poolTx) \<longrightarrow>
      (\<exists>pool'. placeByNonce poolTx pool = Some pool'
         \<and> map_get (pending pool') (pt_hash poolTx) = Some poolTx
         \<and> queued pool' = queued pool))
   \<and> (pt_nonce poolTx > getCurrentNonce pool (pt_sender poolTx) \<longrightarrow>
      (\<exists>pool'. placeByNonce poolTx pool = Some pool'
         \<and> map_get (queued pool') (pt_hash poolTx) = Some poolTx
         \<and> pending pool' = pending pool))
   \<and> (pt_nonce poolTx < getCurrentNonce pool (pt_sender poolTx) \<longrightarrow>
      placeByNonce poolTx pool = None)"
  by (auto simp: placeByNonce_def Let_def map_get_def map_of_map_set)

lemma map_delete_absent: "map_of m h = None \<Longrightarrow> map_delete h m = m"
  by (induction m) (auto simp: map_delete_def split: if_splits)

lemma pending_removeOne: "pending (removeOne h pool) = map_delete h (pending pool)"
  by (auto simp: removeOne_def Let_def promoteQueuedTransactions_identity map_get_def
        map_delete_absent split: option.splits)

lemma queued_removeOne: "queued (removeOne h pool) = map_delete h (queued pool)"
  by (auto simp: removeOne_def Let_def promoteQueuedTransactions_identity map_get_def
        map_delete_absent split: option.splits)

lemma removeTransactions_only_deletes:
  "pending (removeTransactions hs pool) = foldl (\<lambda>m h. map_delete h m) (pending pool) hs
   \<and> queued (removeTransactions hs pool) = foldl (\<lambda>m h. map_delete h m) (queued pool) hs"
  unfolding removeTransactions_def
  by (induction hs arbitrary: pool) (auto simp: pending_removeOne queued_removeOne)

lemma foldl_map_delete_Nil: "foldl (\<lambda>m h. map_delete h m) [] hs = []"
  by (induction hs) (auto simp: map_delete_def)

lemma foldl_map_delete_keeps:
  "k \<notin> set hs \<Longrightarrow> map_of (foldl (\<lambda>m h. map_delete h m) m hs) k = map_of m k"
proof (induction hs arbitrary: m)
  case Nil
  then show ?case by simp
next
  case (Cons h hs)
  have "map_of (map_delete h m) k = map_of m k"
    using Cons.prems by (induction m) (auto simp: map_delete_def)
  then show ?case using Cons by simp
qed

lemma tags: "nonceTag (aliceTx 1) \<noteq> nonceTag (aliceTx 0)"
  "nonceTag (aliceTx 1) \<notin> set [nonceTag (aliceTx 0)]"
  by (simp_all add: nonceTag_def aliceTx_def bigintToHex_def hexChar_def)

text \<open>
  C9 (the code fails the claim). The nonce-gap scenario: a transaction of Alice with nonce 1
  enters an empty pool and is queued (expected nonce 0). The transaction with nonce 0, the
  one the gap waits for, is then refused as too old, because the expected nonce has become
  2; and whatever hashes \<open>removeTransactions\<close> is given afterwards (the queued entry's own
  excepted), the queued entry stays queued and pending stays empty. \<open>H\<close> is the
  transaction hash, \<open>srt\<close> the runtime's sort, \<open>now\<close> and \<open>now'\<close> the clock readings.
\<close>

theorem nonce_gap_never_promoted:
  assumes "H (aliceTx 1) \<noteq> H (aliceTx 0)" and "H (aliceTx 1) \<notin> set hs"
  shows "fst (addTransaction srt H now (aliceTx 1) (emptyPool poolConfig0)) = Added
     \<and> map_get (queued (snd (addTransaction srt H now (aliceTx 1) (emptyPool poolConfig0))))
          (H (aliceTx 1)) \<noteq> None
     \<and> fst (addTransaction srt H now' (aliceTx 0)
               (snd (addTransaction srt H now (aliceTx 1) (emptyPool poolConfig0))))
         = NotAdded NonceTooOld
     \<and> pending (removeTransactions hs
           (snd (addTransaction srt H now' (aliceTx 0)
                  (snd (addTransaction srt H now (aliceTx 1) (emptyPool poolConfig0)))))) = []
     \<and> map_get (queued (removeTransactions hs
           (snd (addTransaction srt H now' (aliceTx 0)
                  (snd (addTransaction srt H now (aliceTx 1) (emptyPool poolConfig0)))))))
          (H (aliceTx 1)) \<noteq> None"
proof -
  let ?p0 = "emptyPool poolConfig0"
  let ?e1 = "\<lparr>pt_transaction = aliceTx 1, pt_hash = H (aliceTx 1), pt_addedTime = now,
              pt_gasPrice = 1, pt_gasLimit = 21000, pt_sender = alice, pt_nonce = 1,
              pt_priority = 0\<rparr>"
  let ?p1 = "\<lparr>config = poolConfig0, pending = [], queued = [(H (aliceTx 1), ?e1)],
              accountTransactions = [(bytesToHex alice, [?e1])], nextPriority = 1\<rparr>"
  have a1: "addTransaction srt H now (aliceTx 1) ?p0 = (Added, ?p1)"
    by (simp add: addTransaction_def emptyPool_def poolConfig0_def aliceTx_def poolValidate_def
          map_has_def Let_def accountTxsOf_def map_get_def placeByNonce_def getCurrentNonce_def
          enforcePoolSizeLimit_def)
  have a2: "addTransaction srt H now' (aliceTx 0) ?p1 = (NotAdded NonceTooOld, ?p1\<lparr>nextPriority := 2\<rparr>)"
    using assms(1)
    by (simp add: addTransaction_def poolConfig0_def aliceTx_def poolValidate_def
          map_has_def Let_def accountTxsOf_def map_get_def placeByNonce_def getCurrentNonce_def)
  show ?thesis
    using assms(2)
    by (simp add: a1 a2 removeTransactions_only_deletes foldl_map_delete_Nil map_get_def
          foldl_map_delete_keeps)
qed

theorem nonce_gap_never_promoted_witness:
  "nonceTag (aliceTx 1) \<noteq> nonceTag (aliceTx 0)
   \<and> nonceTag (aliceTx 1) \<notin> set [nonceTag (aliceTx 0)]
   \<and> fst (addTransaction stableSort nonceTag 1000 (aliceTx 1) (emptyPool poolConfig0)) = Added
   \<and> map_get (queued (snd (addTransaction stableSort nonceTag 1000 (aliceTx 1)
                               (emptyPool poolConfig0))))
        (nonceTag (aliceTx 1)) \<noteq> None
   \<and> fst (addTransaction stableSort nonceTag 1001 (aliceTx 0)
             (snd (addTransaction stableSort nonceTag 1000 (aliceTx 1) (emptyPool poolConfig0))))
       = NotAdded NonceTooOld
   \<and> pending (removeTransactions [nonceTag (aliceTx 0)]
         (snd (addTransaction stableSort nonceTag 1001 (aliceTx 0)
                (snd (addTransaction stableSort nonceTag 1000 (aliceTx 1)
                       (emptyPool poolConfig0)))))) = []
   \<and> map_get (queued (removeTransactions [nonceTag (aliceTx 0)]
         (snd (addTransaction stableSort nonceTag 1001 (aliceTx 0)
                (snd (addTransaction stableSort nonceTag 1000 (aliceTx 1)
                       (emptyPool poolConfig0)))))))
        (nonceTag (aliceTx 1)) \<noteq> None"
  using tags nonce_gap_never_promoted [OF tags, of stableSort 1000 1001] by simp

subsection \<open>Serialization never throws\<close>

lemma hexVal_digits: "list_all (\<lambda>k. isHex (''0123456789abcdef'' ! k)) [0..<16]"
  by code_simp

lemma isHex_hexChar: "isHex (hexChar d)"
proof -
  have "nat (d mod 16) \<in> set [0..<16]" by simp
  then show ?thesis
    using hexVal_digits unfolding list_all_iff hexChar_def by blast
qed

lemma allHex_natToHex: "list_all isHex (natToHex n)"
proof (induction n rule: natToHex.induct)
  case (1 n)
  show ?case
  proof (cases "n < 16")
    case True
    then show ?thesis by (subst natToHex.simps) (simp add: isHex_hexChar)
  next
    case False
    then show ?thesis
      using 1 by (subst natToHex.simps) (simp add: isHex_hexChar)
  qed
qed

lemma natToHex_nonempty: "natToHex n \<noteq> []"
  by (subst natToHex.simps) auto

lemma okHex_allHex: "list_all isHex s \<Longrightarrow> okHex s"
  by (induction s) auto

lemma okHex_bigintToHex: "okHex (bigintToHex v)"
proof (cases "v < 0")
  case True
  obtain d ds where "natToHex (- v) = d # ds"
    using natToHex_nonempty [of "- v"] by (cases "natToHex (- v)") auto
  then show ?thesis
    using True allHex_natToHex [of "- v"] okHex_allHex [of "natToHex (- v)"]
    by (auto simp: bigintToHex_def)
next
  case False
  then show ?thesis
    using allHex_natToHex [of v] by (simp add: bigintToHex_def okHex_allHex)
qed

lemma isHex_zero: "isHex (CHR ''0'')"
  by (simp add: isHex_def hexVal_def)

lemma okHex_replicate: "okHex s \<Longrightarrow> okHex (replicate k (CHR ''0'') @ s)"
  by (induction k) (auto simp: isHex_zero)

lemma okHex_no_junk: "okHex s \<Longrightarrow> c \<in> set s \<Longrightarrow> isHex c \<or> c = CHR ''-''"
  by (induction s) auto

lemma isHex_junk:
  "\<not> isHex (CHR ''x'')" "\<not> isHex (CHR '' '')" "\<not> isHex (CHR 0x09)"
  "\<not> isHex (CHR 0x0A)" "\<not> isHex (CHR 0x0B)" "\<not> isHex (CHR 0x0C)"
  "\<not> isHex (CHR 0x0D)" "\<not> isHex (CHR 0xA0)" "\<not> isHex (CHR ''X'')"
  "\<not> isHex (CHR ''-'')" "\<not> isHex (CHR ''+'')"
  by (simp_all add: isHex_def hexVal_def)

lemma parseHexPair_ok:
  assumes "(isHex a \<and> (isHex b \<or> b = CHR ''-'')) \<or> (a = CHR ''-'' \<and> isHex b)"
  shows "\<exists>v. parseHexPair a b = Some v"
proof -
  have "b \<noteq> CHR ''x''" "b \<noteq> CHR ''X''" using assms isHex_junk by auto
  moreover have "a \<noteq> CHR ''+''" using assms isHex_junk by auto
  ultimately show ?thesis
    using assms by (auto simp: parseHexPair_def isHex_def split: option.splits)
qed

lemma hexPairs_ok: "okHex s \<Longrightarrow> even (length s) \<Longrightarrow> \<exists>bs. hexPairs s = Inr bs"
proof (induction s rule: hexPairs.induct)
  case (1 a b rest)
  have "isHex b \<or> b = CHR ''-''" using okHex_no_junk [OF "1.prems"(1), of b] by simp
  moreover have "isHex a \<or> (a = CHR ''-'' \<and> isHex b)" using "1.prems"(1) by auto
  ultimately have "(isHex a \<and> (isHex b \<or> b = CHR ''-'')) \<or> (a = CHR ''-'' \<and> isHex b)"
    by blast
  then obtain v where v: "parseHexPair a b = Some v" using parseHexPair_ok by blast
  have "okHex rest" "even (length rest)" using "1.prems" by auto
  then obtain bs where "hexPairs rest = Inr bs" using "1.IH" [OF v] by blast
  then show ?case using v by simp
next
  case (2 a)
  then show ?case by simp
next
  case 3
  then show ?case by simp
qed

lemma hexToBytes_ok:
  assumes "okHex s"
  shows "\<exists>bs. hexToBytes s = Inr bs"
proof -
  have nx: "take 2 s \<noteq> ''0x''"
  proof
    assume "take 2 s = ''0x''"
    then have "CHR ''x'' \<in> set (take 2 s)" by simp
    then have "CHR ''x'' \<in> set s" by (rule in_set_takeD)
    then show False using okHex_no_junk [OF assms] isHex_junk by fastforce
  qed
  have nf: "filter (\<lambda>c. c \<notin> set whiteSpace) s = s"
    unfolding filter_id_conv
  proof
    fix c assume "c \<in> set s"
    then have "isHex c \<or> c = CHR ''-''" using okHex_no_junk [OF assms] by blast
    then show "c \<notin> set whiteSpace"
      using isHex_junk by (auto simp: whiteSpace_def)
  qed
  show ?thesis
  proof (cases "length s mod 2 \<noteq> 0")
    case True
    have "okHex (CHR ''0'' # s)" "even (length (CHR ''0'' # s))"
      using assms True by (auto simp: isHex_zero)
    then obtain bs where "hexPairs (CHR ''0'' # s) = Inr bs" using hexPairs_ok by blast
    then show ?thesis using nx nf True by (simp add: hexToBytes_def Let_def)
  next
    case False
    then have "even (length s)" by presburger
    then obtain bs where "hexPairs s = Inr bs" using hexPairs_ok [OF assms] by blast
    then show ?thesis using nx nf False by (simp add: hexToBytes_def Let_def)
  qed
qed

lemma bigintToBytes_total: "\<exists>bs. bigintToBytes v n = Inr bs"
  unfolding bigintToBytes_def padStart_def
  by (intro hexToBytes_ok okHex_replicate okHex_bigintToHex)

subsection \<open>Block creation\<close>

lemma serializeTransaction_total: "\<exists>bs. serializeTransaction tx = Inr bs"
proof -
  obtain a where a: "bigintToBytes (tx_value tx) 32 = Inr a" using bigintToBytes_total by blast
  obtain b where b: "bigintToBytes (tx_gasLimit tx) 32 = Inr b" using bigintToBytes_total by blast
  obtain c where c: "bigintToBytes (tx_gasPrice tx) 32 = Inr c" using bigintToBytes_total by blast
  obtain d where d: "bigintToBytes (tx_nonce tx) 32 = Inr d" using bigintToBytes_total by blast
  show ?thesis by (simp add: serializeTransaction_def bind_err_def a b c d)
qed

lemma serializeReceipt_total: "\<exists>bs. serializeReceipt r = Inr bs"
proof -
  obtain a where a: "bigintToBytes (r_blockNumber r) 32 = Inr a" using bigintToBytes_total by blast
  obtain b where b: "bigintToBytes (r_transactionIndex r) 4 = Inr b" using bigintToBytes_total by blast
  obtain c where c: "bigintToBytes (r_gasUsed r) 32 = Inr c" using bigintToBytes_total by blast
  obtain d where d: "bigintToBytes (r_cumulativeGasUsed r) 32 = Inr d" using bigintToBytes_total by blast
  obtain e where e: "bigintToBytes (r_status r) 1 = Inr e" using bigintToBytes_total by blast
  show ?thesis using a b c d e by (simp add: serializeReceipt_def bind_err_def)
qed

lemma serializeBlockHeader_total: "\<exists>bs. serializeBlockHeader h = Inr bs"
proof -
  obtain a where a: "bigintToBytes (number h) 32 = Inr a" using bigintToBytes_total by blast
  obtain b where b: "bigintToBytes (timestamp h) 32 = Inr b" using bigintToBytes_total by blast
  obtain c where c: "bigintToBytes (gasLimit h) 32 = Inr c" using bigintToBytes_total by blast
  obtain d where d: "bigintToBytes (gasUsed h) 32 = Inr d" using bigintToBytes_total by blast
  show ?thesis by (simp add: serializeBlockHeader_def bind_err_def a b c d)
qed

lemma concatSerialized_total:
  "(\<And>x. \<exists>bs. ser x = Inr bs) \<Longrightarrow> \<exists>bs. concatSerialized ser acc xs = Inr bs"
proof (induction xs arbitrary: acc)
  case Nil
  then show ?case by simp
next
  case (Cons x xs)
  obtain b where b: "ser x = Inr b" using Cons.prems by blast
  show ?case using Cons.IH [OF Cons.prems, of "acc @ b"] by (simp add: bind_err_def b)
qed


lemma signBlockHeader_gasUsed:
  "signBlockHeader K h = Inr h' \<Longrightarrow> gasUsed h' = gasUsed h"
  by (auto simp: signBlockHeader_def bind_err_def Let_def split: if_splits sum.splits)

lemma signBlockHeader_total:
  assumes "\<forall>x. length (K x) \<le> 65"
  shows "\<exists>h'. signBlockHeader K h = Inr h'"
proof -
  obtain hb where hb: "serializeBlockHeader h = Inr hb" using serializeBlockHeader_total by blast
  have "\<not> length (K hb) > 65" using assms by (simp add: not_less)
  then show ?thesis by (simp add: signBlockHeader_def bind_err_def hb Let_def)
qed

lemma buildBlock_total:
  assumes "\<forall>x. length (K x) \<le> 65"
  shows "\<exists>b. buildBlock K now opts parent v pts rs tot = Inr b
           \<and> gasUsed (header b) = tot \<and> transactions b = map pt_transaction pts"
proof -
  obtain ph where ph: "calculateBlockHash K parent = Inr ph"
    using serializeBlockHeader_total [of "header parent"]
    by (auto simp: calculateBlockHash_def bind_err_def)
  obtain tc where tc: "concatSerialized serializeTransaction [] (map pt_transaction pts) = Inr tc"
    using concatSerialized_total [of serializeTransaction "[]" "map pt_transaction pts"]
      serializeTransaction_total by blast
  obtain rc where rc: "concatSerialized serializeReceipt [] rs = Inr rc"
    using concatSerialized_total [of serializeReceipt "[]" rs] serializeReceipt_total by blast
  have "\<exists>tr. calculateTransactionsRoot K (map pt_transaction pts) = Inr tr"
    by (simp add: calculateTransactionsRoot_def bind_err_def tc)
  then obtain tr where tr: "calculateTransactionsRoot K (map pt_transaction pts) = Inr tr"
    by blast
  have "\<exists>rr. calculateReceiptsRoot K rs = Inr rr"
    by (simp add: calculateReceiptsRoot_def bind_err_def rc)
  then obtain rr where rr: "calculateReceiptsRoot K rs = Inr rr"
    by blast
  let ?h = "\<lparr>parentHash = ph, number = number (header parent) + 1,
              timestamp = now, stateRoot = calculateStateRoot,
              transactionsRoot = tr, receiptsRoot = rr,
              validator = v, signature = [],
              gasLimit = bp_gasLimit opts, gasUsed = tot, extraData = []\<rparr>"
  obtain sh where sh: "signBlockHeader K ?h = Inr sh"
    using signBlockHeader_total [OF assms] by blast
  have "gasUsed sh = tot" using signBlockHeader_gasUsed [OF sh] by simp
  then show ?thesis by (simp add: buildBlock_def bind_err_def ph tr rr sh)
qed




























































subsection \<open>Reorganization\<close>

text \<open>
  With a complete fork choice the body fails too. When the tip is above the common
  ancestor, the first statement of the walk back, the manager's hash of the current
  block, throws; nothing has been deleted or restored. Otherwise the first block of the
  new chain cannot be stored, since \<open>storeBlock\<close> throws for every block.
\<close>

lemma storeBlock_always_fails: "storeBlock K b st = Inl FailedToStoreBlock"
  by (simp add: storeBlock_def jsonStringifyHeader_def bind_err_def split: sum.splits)

lemma walkBack_throws:
  "number (header cur) > number (header anc)
   \<Longrightarrow> walkBack (managerBlockHash mix) MT anc cur m = Some (Some TypeError, m)"
  by (subst walkBack.simps)
     (simp add: managerBlockHash_def jsonStringifyHeader_def bind_err_def)

lemma walkBack_done:
  "\<not> number (header cur) > number (header anc) \<Longrightarrow> walkBack MH MT anc cur m = Some (None, m)"
  by (subst walkBack.simps) simp

lemma handleReorg_with_ancestor_throws:
  assumes "getChainTip (m_storage m) = Some tip"
    and "number (header tip) > number (header ancestor)"
  shows "handleReorg K (managerBlockHash mix) (managerTransactionHash mix) newBlock
           \<lparr>action = Reorg, newChain = Some chain, commonAncestor = Some ancestor\<rparr> m
         = Some (Some TypeError, m)"
  using assms by (simp add: handleReorg_def walkBack_throws)

lemma handleReorg_cannot_store:
  assumes "getChainTip (m_storage m) = None
           \<or> (\<exists>tip. getChainTip (m_storage m) = Some tip
                    \<and> \<not> number (header tip) > number (header ancestor))"
  shows "handleReorg K (managerBlockHash mix) (managerTransactionHash mix) newBlock
           \<lparr>action = Reorg, newChain = Some (b # chain), commonAncestor = Some ancestor\<rparr> m
         = Some (Some FailedToStoreBlock, m)"
  using assms by (auto simp: handleReorg_def walkBack_done storeBlock_always_fails)

text \<open>
  C4 (the code fails the claim). Whatever block fork choice is asked about, the answer of
  \<open>shouldReorg\<close> carries neither a new chain nor a common ancestor, so \<open>handleReorg\<close>
  called with it throws "Invalid fork choice for reorg" before it touches anything: no
  block is removed, no transaction is restored to the pool, no block of a new chain is
  applied.
\<close>

theorem reorg_never_carried_out:
  "handleReorg K MH MT newBlock (shouldReorg newBlock currentTip) m
     = Some (Some InvalidForkChoice, m)"
  by (simp add: handleReorg_def shouldReorg_def Let_def)

subsection \<open>Arithmetic opcodes\<close>

lemma and_mask256: "x AND mask256 = x mod 2 ^ 256"
proof -
  have "mask256 = mask 256" unfolding mask256_def mask_eq_exp_minus_1 ..
  then have "x AND mask256 = take_bit 256 x" by (simp only: take_bit_eq_mask)
  then show ?thesis by (simp only: take_bit_eq_mod)
qed

lemma smod_nonneg: "0 \<le> a \<Longrightarrow> 0 < b \<Longrightarrow> a smod b = a mod (b::int)"
  by (simp add: signed_modulo_int_def sgn_if)

lemma sdiv_nonneg: "0 \<le> a \<Longrightarrow> 0 < b \<Longrightarrow> a sdiv b = a div (b::int)"
  by (simp add: signed_divide_int_def sgn_if)

lemma binaryOp_run:
  assumes "stack ctx = x # y # rest" "0 \<le> cost" "cost \<le> gasLeft ctx"
    "f x y = Inr (Big r)" "0 \<le> r" "r < 2 ^ 256" "length rest < 1024"
  shows "binaryOp cost f ctx
           = (Inr (), ctx\<lparr>gasLeft := gasLeft ctx - cost, stack := Big r # rest\<rparr>)"
  using assms
  by (simp add: binaryOp_def thenV_def bindV_def useGas_def pop_def push_def liftE_def
        returnV_def throwV_def js_lt_def js_gt_def numOf_def mask256_def)

lemma expmodLoop_correct:
  assumes "0 < m" "0 \<le> r" "r < m" "0 \<le> b" "0 \<le> e"
  shows "expmodLoop r b e m = (r * b ^ nat e) mod m"
  using assms
proof (induction r b e m rule: expmodLoop.induct)
  case (1 r b e m)
  show ?case
  proof (cases "e > 0")
    case False
    then have "e = 0" using "1.prems" by simp
    then show ?thesis using "1.prems" by (subst expmodLoop.simps) simp
  next
    case True
    let ?r' = "(if e smod 2 = 1 then (r * b) smod m else r)"
    let ?b' = "(b * b) smod m"
    let ?e' = "bigShr e 1"
    have e': "?e' = e div 2" by (simp add: bigShr_def drop_bit_eq_div)
    have b': "?b' = (b * b) mod m" using "1.prems" by (simp add: smod_nonneg)
    have odd: "(e smod 2 = 1) = (e mod 2 = 1)" using True by (simp add: smod_nonneg)
    have r': "?r' = (if e mod 2 = 1 then (r * b) mod m else r)"
      using "1.prems" odd by (simp add: smod_nonneg)
    have p: "0 \<le> ?r'" "?r' < m" "0 \<le> ?b'" "0 \<le> ?e'"
      using "1.prems" True unfolding r' b' e' by auto
    have ih: "expmodLoop ?r' ?b' ?e' m = (?r' * ?b' ^ nat ?e') mod m"
      using "1.IH" [OF True "1.prems"(1) p] .
    have step: "expmodLoop r b e m = expmodLoop ?r' ?b' ?e' m"
      using True by (subst expmodLoop.simps) simp
    have nn: "0 \<le> 2 * (e div 2)" "0 \<le> e mod 2" using True by simp_all
    have "nat e = nat (2 * (e div 2) + e mod 2)" by simp
    also have "\<dots> = nat (2 * (e div 2)) + nat (e mod 2)" using nn by (rule nat_add_distrib)
    also have "\<dots> = 2 * nat (e div 2) + nat (e mod 2)" by (simp add: nat_mult_distrib)
    finally have ne: "nat e = 2 * nat (e div 2) + nat (e mod 2)" .
    have pw: "b ^ nat e = (b * b) ^ nat (e div 2) * b ^ nat (e mod 2)"
      by (subst ne) (simp add: power_add power_mult power2_eq_square)
    have sq: "((b * b) mod m) ^ nat (e div 2) mod m = (b * b) ^ nat (e div 2) mod m"
      by (simp add: power_mod)
    show ?thesis
    proof (cases "e mod 2 = 1")
      case True
      have "(?r' * ?b' ^ nat ?e') mod m
              = ((r * b) mod m * (((b * b) mod m) ^ nat (e div 2) mod m)) mod m"
        unfolding r' b' e' using True by (simp add: mod_mult_right_eq)
      also have "\<dots> = ((r * b) * (b * b) ^ nat (e div 2)) mod m"
        unfolding sq by (simp add: mod_mult_eq)
      also have "\<dots> = (r * b ^ nat e) mod m"
        unfolding pw using True by (simp add: mult.assoc mult.commute mult.left_commute)
      finally show ?thesis unfolding step ih .
    next
      case False
      then have z: "e mod 2 = 0" by presburger
      have "(?r' * ?b' ^ nat ?e') mod m
              = (r * (((b * b) mod m) ^ nat (e div 2) mod m)) mod m"
        unfolding r' b' e' using False by (simp add: mod_mult_right_eq)
      also have "\<dots> = (r * (b * b) ^ nat (e div 2)) mod m"
        unfolding sq by (simp add: mod_mult_right_eq)
      also have "\<dots> = (r * b ^ nat e) mod m"
        unfolding pw using z by simp
      finally show ?thesis unfolding step ih .
    qed
  qed
qed

lemma div_le_dividend:
  assumes "0 \<le> a" "0 \<le> b"
  shows "a div b \<le> (a::int)"
proof (cases "b = 0")
  case True
  then show ?thesis using assms(1) by simp
next
  case False
  then have "a div b \<le> a div 1" using assms by (intro zdiv_mono2) simp_all
  then show ?thesis by simp
qed

lemma mod256_range: "0 \<le> x mod 2 ^ 256" "x mod 2 ^ 256 < (2 ^ 256 :: int)"
  by simp_all

text \<open>
  C6. On a context whose two topmost stack entries are the 256-bit words \<open>a\<close> (top) and
  \<open>b\<close>, with room on the stack and gas for the most expensive of them, each handler
  charges its gas, pops both words and pushes one: \<open>ADD\<close>, \<open>MUL\<close> and \<open>SUB\<close> the sum,
  product and difference modulo \<open>2^256\<close>; \<open>DIV\<close> and \<open>MOD\<close> the quotient and the remainder
  of \<open>a\<close> by \<open>b\<close>, and 0 when \<open>b\<close> is 0, without an exception; \<open>SHL\<close> and \<open>SHR\<close> the value \<open>b\<close>
  shifted by \<open>a\<close>, and 0 when \<open>a\<close> is 256 or more; \<open>SAR\<close> with a shift of 256 or more
  \<open>2^256 - 1\<close> when bit 255 of the value is set and 0 otherwise; \<open>EXP\<close> the power \<open>a ^ b\<close>
  modulo \<open>2^256\<close>, which \<open>expmod\<close> computes by squaring and multiplying
  (\<open>expmodLoop_correct\<close>). The handlers are the ones the table holds for the opcodes
  \<open>0x01\<close>..\<open>0x04\<close>, \<open>0x06\<close>, \<open>0x0a\<close> and \<open>0x1b\<close>..\<open>0x1d\<close>.
\<close>

theorem arithmetic_opcodes:
  assumes "0 \<le> a" "a < 2 ^ 256" "0 \<le> b" "b < 2 ^ 256"
    "stack ctx = Big a # Big b # rest" "length rest < 1024" "10 \<le> gasLeft ctx"
  shows "op_ADD ctx = (Inr (), ctx\<lparr>gasLeft := gasLeft ctx - 3,
                                     stack := Big ((a + b) mod 2 ^ 256) # rest\<rparr>)
       \<and> op_MUL ctx = (Inr (), ctx\<lparr>gasLeft := gasLeft ctx - 5,
                                     stack := Big ((a * b) mod 2 ^ 256) # rest\<rparr>)
       \<and> op_SUB ctx = (Inr (), ctx\<lparr>gasLeft := gasLeft ctx - 3,
                                     stack := Big ((a - b) mod 2 ^ 256) # rest\<rparr>)
       \<and> op_DIV ctx = (Inr (), ctx\<lparr>gasLeft := gasLeft ctx - 5,
                                     stack := Big (if b = 0 then 0 else a div b) # rest\<rparr>)
       \<and> op_MOD ctx = (Inr (), ctx\<lparr>gasLeft := gasLeft ctx - 5,
                                     stack := Big (if b = 0 then 0 else a mod b) # rest\<rparr>)
       \<and> op_SHL ctx = (Inr (), ctx\<lparr>gasLeft := gasLeft ctx - 3,
                                     stack := Big (if 256 \<le> a then 0
                                                   else (b * 2 ^ nat a) mod 2 ^ 256) # rest\<rparr>)
       \<and> op_SHR ctx = (Inr (), ctx\<lparr>gasLeft := gasLeft ctx - 3,
                                     stack := Big (if 256 \<le> a then 0
                                                   else b div 2 ^ nat a) # rest\<rparr>)
       \<and> (256 \<le> a \<longrightarrow>
            op_SAR ctx = (Inr (), ctx\<lparr>gasLeft := gasLeft ctx - 3,
                                       stack := Big (if 2 ^ 255 \<le> b then 2 ^ 256 - 1 else 0)
                                                # rest\<rparr>))
       \<and> op_EXP ctx = (Inr (), ctx\<lparr>gasLeft := gasLeft ctx - 10,
                                     stack := Big ((a ^ nat b) mod 2 ^ 256) # rest\<rparr>)
       \<and> opcodeHandlers 0x01 = Some op_ADD \<and> opcodeHandlers 0x02 = Some op_MUL
       \<and> opcodeHandlers 0x03 = Some op_SUB \<and> opcodeHandlers 0x04 = Some op_DIV
       \<and> opcodeHandlers 0x06 = Some op_MOD \<and> opcodeHandlers 0x0a = Some op_EXP
       \<and> opcodeHandlers 0x1b = Some op_SHL \<and> opcodeHandlers 0x1c = Some op_SHR
       \<and> opcodeHandlers 0x1d = Some op_SAR"
proof -
  note run = binaryOp_run [OF assms(5) _ _ _ _ _ assms(6)]
  have g: "3 \<le> gasLeft ctx" "5 \<le> gasLeft ctx" "10 \<le> gasLeft ctx" using assms(7) by simp_all
  have add: "op_ADD ctx = (Inr (), ctx\<lparr>gasLeft := gasLeft ctx - 3,
                                     stack := Big ((a + b) mod 2 ^ 256) # rest\<rparr>)"
    unfolding op_ADD_def
    by (rule run [OF _ g(1) _ mod256_range])
       (simp_all add: js_add_def js_binop_def js_and_def bind_err_def and_mask256)
  have mul: "op_MUL ctx = (Inr (), ctx\<lparr>gasLeft := gasLeft ctx - 5,
                                     stack := Big ((a * b) mod 2 ^ 256) # rest\<rparr>)"
    unfolding op_MUL_def
    by (rule run [OF _ g(2) _ mod256_range])
       (simp_all add: js_mul_def js_binop_def js_and_def bind_err_def and_mask256)
  have sub: "op_SUB ctx = (Inr (), ctx\<lparr>gasLeft := gasLeft ctx - 3,
                                     stack := Big ((a - b) mod 2 ^ 256) # rest\<rparr>)"
    unfolding op_SUB_def
    by (rule run [OF _ g(1) _ mod256_range])
       (simp_all add: js_sub_def js_binop_def js_and_def bind_err_def and_mask256)
  have dr: "0 \<le> (if b = 0 then 0 else a div b)" "(if b = 0 then 0 else a div b) < 2 ^ 256"
  proof -
    show "0 \<le> (if b = 0 then 0 else a div b)" using assms(1,3) by (simp add: pos_imp_zdiv_nonneg_iff)
    have "b \<noteq> 0 \<Longrightarrow> a div b \<le> a" using assms(1,3) by (simp add: div_le_dividend)
    then show "(if b = 0 then 0 else a div b) < 2 ^ 256" using assms(2) by auto
  qed
  have div: "op_DIV ctx = (Inr (), ctx\<lparr>gasLeft := gasLeft ctx - 5,
                                     stack := Big (if b = 0 then 0 else a div b) # rest\<rparr>)"
    unfolding op_DIV_def
    by (rule run [OF _ g(2) _ dr])
       (use assms(1,3) in \<open>simp_all add: js_div_def js_binop_def js_seq_def sdiv_nonneg\<close>)
  have mr: "0 \<le> (if b = 0 then 0 else a mod b)" "(if b = 0 then 0 else a mod b) < 2 ^ 256"
  proof -
    show "0 \<le> (if b = 0 then 0 else a mod b)" using assms(3) by simp
    have "b \<noteq> 0 \<Longrightarrow> a mod b < b" using assms(3) by simp
    then show "(if b = 0 then 0 else a mod b) < 2 ^ 256" using assms(4) by auto
  qed
  have mod: "op_MOD ctx = (Inr (), ctx\<lparr>gasLeft := gasLeft ctx - 5,
                                     stack := Big (if b = 0 then 0 else a mod b) # rest\<rparr>)"
    unfolding op_MOD_def
    by (rule run [OF _ g(2) _ mr])
       (use assms(1,3) in \<open>simp_all add: js_mod_def js_binop_def js_seq_def smod_nonneg\<close>)
  have lr: "0 \<le> (if 256 \<le> a then 0 else (b * 2 ^ nat a) mod 2 ^ 256)"
    "(if 256 \<le> a then 0 else (b * 2 ^ nat a) mod 2 ^ 256) < 2 ^ 256"
    using mod256_range [of "b * 2 ^ nat a"] by auto
  have shl: "op_SHL ctx = (Inr (), ctx\<lparr>gasLeft := gasLeft ctx - 3,
                                     stack := Big (if 256 \<le> a then 0
                                                   else (b * 2 ^ nat a) mod 2 ^ 256) # rest\<rparr>)"
    unfolding op_SHL_def
    by (rule run [OF _ g(1) _ lr])
       (use assms(1) in \<open>simp_all add: js_shl_def js_binop_def js_and_def js_ge_def numOf_def
           bind_err_def bigShl_def push_bit_eq_mult and_mask256\<close>)
  have rr: "0 \<le> (if 256 \<le> a then 0 else b div 2 ^ nat a)"
    "(if 256 \<le> a then 0 else b div 2 ^ nat a) < 2 ^ 256"
  proof -
    show "0 \<le> (if 256 \<le> a then 0 else b div 2 ^ nat a)"
      using assms(3) by (simp add: pos_imp_zdiv_nonneg_iff)
    have "b div 2 ^ nat a \<le> b" using assms(3) by (simp add: div_le_dividend)
    then show "(if 256 \<le> a then 0 else b div 2 ^ nat a) < 2 ^ 256" using assms(4) by auto
  qed
  have shr: "op_SHR ctx = (Inr (), ctx\<lparr>gasLeft := gasLeft ctx - 3,
                                     stack := Big (if 256 \<le> a then 0
                                                   else b div 2 ^ nat a) # rest\<rparr>)"
    unfolding op_SHR_def
    by (rule run [OF _ g(1) _ rr])
       (use assms(1) in \<open>simp_all add: js_shr_def js_binop_def js_ge_def numOf_def
           bigShr_def drop_bit_eq_div\<close>)
  have sr: "0 \<le> (if 2 ^ 255 \<le> b then 2 ^ 256 - 1 else (0::int))"
    "(if 2 ^ 255 \<le> b then 2 ^ 256 - 1 else (0::int)) < 2 ^ 256"
    by simp_all
  have sar: "256 \<le> a \<longrightarrow>
            op_SAR ctx = (Inr (), ctx\<lparr>gasLeft := gasLeft ctx - 3,
                                       stack := Big (if 2 ^ 255 \<le> b then 2 ^ 256 - 1 else 0)
                                                # rest\<rparr>)"
  proof
    assume a: "256 \<le> a"
    show "op_SAR ctx = (Inr (), ctx\<lparr>gasLeft := gasLeft ctx - 3,
                                       stack := Big (if 2 ^ 255 \<le> b then 2 ^ 256 - 1 else 0)
                                                # rest\<rparr>)"
      unfolding op_SAR_def
      by (rule run [OF _ g(1) _ sr])
         (use a in \<open>simp_all add: js_ge_def numOf_def Let_def mask256_def\<close>)
  qed
  have er: "0 \<le> (a ^ nat b) mod 2 ^ 256" "(a ^ nat b) mod 2 ^ 256 < 2 ^ 256"
    using mod256_range by blast+
  have el: "expmodLoop 1 a b (2 ^ 256) = (1 * a ^ nat b) mod 2 ^ 256"
    by (rule expmodLoop_correct) (use assms(1,3) in simp_all)
  have exp: "op_EXP ctx = (Inr (), ctx\<lparr>gasLeft := gasLeft ctx - 10,
                                     stack := Big ((a ^ nat b) mod 2 ^ 256) # rest\<rparr>)"
    unfolding op_EXP_def
    apply (rule run [OF _ g(3) _ er])
     apply simp
    using assms(1,2) el
    apply (simp add: expmod_def js_mod_def js_binop_def bind_err_def smod_nonneg)
    done
  have tab: "opcodeHandlers 0x01 = Some op_ADD \<and> opcodeHandlers 0x02 = Some op_MUL
       \<and> opcodeHandlers 0x03 = Some op_SUB \<and> opcodeHandlers 0x04 = Some op_DIV
       \<and> opcodeHandlers 0x06 = Some op_MOD \<and> opcodeHandlers 0x0a = Some op_EXP
       \<and> opcodeHandlers 0x1b = Some op_SHL \<and> opcodeHandlers 0x1c = Some op_SHR
       \<and> opcodeHandlers 0x1d = Some op_SAR"
    by (simp add: opcodeHandlers_def)
  show ?thesis
    using add mul sub div mod shl shr sar exp tab by blast
qed

theorem arithmetic_opcodes_witness:
  "0 \<le> (300::int) \<and> (300::int) < 2 ^ 256 \<and> 0 \<le> (2 ^ 255 :: int) \<and> (2 ^ 255 :: int) < 2 ^ 256
   \<and> stack arithContext = Big 300 # Big (2 ^ 255) # [] \<and> length ([] :: jsval list) < 1024
   \<and> 10 \<le> gasLeft arithContext
   \<and> op_ADD arithContext = (Inr (), arithContext\<lparr>gasLeft := gasLeft arithContext - 3,
          stack := Big ((300 + 2 ^ 255) mod 2 ^ 256) # []\<rparr>)
   \<and> op_MUL arithContext = (Inr (), arithContext\<lparr>gasLeft := gasLeft arithContext - 5,
          stack := Big ((300 * 2 ^ 255) mod 2 ^ 256) # []\<rparr>)
   \<and> op_SUB arithContext = (Inr (), arithContext\<lparr>gasLeft := gasLeft arithContext - 3,
          stack := Big ((300 - 2 ^ 255) mod 2 ^ 256) # []\<rparr>)
   \<and> op_DIV arithContext = (Inr (), arithContext\<lparr>gasLeft := gasLeft arithContext - 5,
          stack := Big (if (2 ^ 255 :: int) = 0 then 0 else 300 div 2 ^ 255) # []\<rparr>)
   \<and> op_MOD arithContext = (Inr (), arithContext\<lparr>gasLeft := gasLeft arithContext - 5,
          stack := Big (if (2 ^ 255 :: int) = 0 then 0 else 300 mod 2 ^ 255) # []\<rparr>)
   \<and> op_SHL arithContext = (Inr (), arithContext\<lparr>gasLeft := gasLeft arithContext - 3,
          stack := Big (if 256 \<le> (300::int) then 0 else (2 ^ 255 * 2 ^ nat 300) mod 2 ^ 256) # []\<rparr>)
   \<and> op_SHR arithContext = (Inr (), arithContext\<lparr>gasLeft := gasLeft arithContext - 3,
          stack := Big (if 256 \<le> (300::int) then 0 else 2 ^ 255 div 2 ^ nat 300) # []\<rparr>)
   \<and> 256 \<le> (300::int)
   \<and> op_SAR arithContext = (Inr (), arithContext\<lparr>gasLeft := gasLeft arithContext - 3,
          stack := Big (if (2 ^ 255 :: int) \<le> 2 ^ 255 then 2 ^ 256 - 1 else 0) # []\<rparr>)
   \<and> op_EXP arithContext = (Inr (), arithContext\<lparr>gasLeft := gasLeft arithContext - 10,
          stack := Big ((300 ^ nat (2 ^ 255)) mod 2 ^ 256) # []\<rparr>)"
proof -
  have h: "0 \<le> (300::int)" "(300::int) < 2 ^ 256" "0 \<le> (2 ^ 255 :: int)"
    "(2 ^ 255 :: int) < 2 ^ 256" "stack arithContext = Big 300 # Big (2 ^ 255) # []"
    "length ([] :: jsval list) < 1024" "10 \<le> gasLeft arithContext"
    by (simp_all add: arithContext_def newContext_def)
  have s: "256 \<le> (300::int)" by simp
  note T = arithmetic_opcodes [OF h]
  show ?thesis
    using h s T by blast
qed

end
